theory Spec2Isabelle
  imports Main "HOL-Library.Word" "HOL-Library.Sublist"
begin

section \<open>Timestamp clamp (src/firehose/clamp-timestamp.ts)\<close>

text \<open>
  A JavaScript \<open>Date\<close> holds a time value: an integral number of milliseconds since the
  epoch, of magnitude at most 8.64e15, or \<open>NaN\<close>, and then the date is an Invalid Date.
  A number that may be \<open>NaN\<close> is an \<open>int option\<close>, \<open>None\<close> for \<open>NaN\<close>; the sums below are
  exact, all magnitudes being far below \<open>2^53\<close>.
  \<^item> \<open>getTime\<close> reads the time value;
  \<^item> \<open>new Date(v)\<close> clips: \<open>NaN\<close> and every value beyond 8.64e15 give an Invalid Date;
  \<^item> \<open>v + k\<close> and \<open>v - k\<close> are \<open>NaN\<close> when \<open>v\<close> is;
  \<^item> \<open>a > b\<close> and \<open>a < b\<close> on two dates compare the time values, and are false as soon as
    one of them is \<open>NaN\<close>.
\<close>

datatype date = Date int | InvalidDate

definition getTime :: "date \<Rightarrow> int option" where
  "getTime d = (case d of Date t \<Rightarrow> Some t | InvalidDate \<Rightarrow> None)"

definition time_clip :: "int option \<Rightarrow> int option" where
  "time_clip v =
     (case v of
        None \<Rightarrow> None
      | Some t \<Rightarrow> if \<bar>t\<bar> > 8640000000000000 then None else Some t)"

definition new_Date :: "int option \<Rightarrow> date" where
  "new_Date v = (case time_clip v of None \<Rightarrow> InvalidDate | Some t \<Rightarrow> Date t)"

definition number_add :: "int option \<Rightarrow> int \<Rightarrow> int option" where
  "number_add v k = (case v of None \<Rightarrow> None | Some t \<Rightarrow> Some (t + k))"

definition number_sub :: "int option \<Rightarrow> int \<Rightarrow> int option" where
  "number_sub v k = (case v of None \<Rightarrow> None | Some t \<Rightarrow> Some (t - k))"

definition date_gt :: "date \<Rightarrow> date \<Rightarrow> bool" where
  "date_gt a b =
     (case (getTime a, getTime b) of (Some x, Some y) \<Rightarrow> x > y | _ \<Rightarrow> False)"

definition date_lt :: "date \<Rightarrow> date \<Rightarrow> bool" where
  "date_lt a b =
     (case (getTime a, getTime b) of (Some x, Some y) \<Rightarrow> x < y | _ \<Rightarrow> False)"

definition MAX_FUTURE_MS :: int where
  "MAX_FUTURE_MS = 5 * 60 * 1000"

definition MAX_PAST_MS :: int where
  "MAX_PAST_MS = 60 * 60 * 1000"

definition clampCreatedAt :: "date \<Rightarrow> date \<Rightarrow> date" where
  "clampCreatedAt clientCreatedAt now =
     (let maxFuture = new_Date (number_add (getTime now) MAX_FUTURE_MS);
          maxPast = new_Date (number_sub (getTime now) MAX_PAST_MS)
      in if date_gt clientCreatedAt maxFuture then now
         else if date_lt clientCreatedAt maxPast then maxPast
         else clientCreatedAt)"

section \<open>Exceptions, collaborator calls and traces\<close>

text \<open>
  A thrown JavaScript value. Collaborators (database, cache, network, indexers, schema
  library) may throw any of them; the code itself only builds \<open>Error\<close> objects, and the
  runtime raises \<open>TypeError\<close> when a property of \<open>undefined\<close> is read and \<open>RangeError\<close>
  when \<open>toISOString\<close> is called on an Invalid Date.
\<close>

datatype exn = Error string | TypeError string | RangeError string | Thrown string

text \<open>
  Structured log lines: the level, the fields object (as a list of key and value) and
  the message. The logger is a collaborator that records the line and returns.
\<close>

datatype log_level = LDebug | LInfo | LWarn | LError

datatype action = Create | Update | Delete

datatype log_value =
    LStr string
  | LNum int
  | LErr exn
  | LAction action
  | LIsoDate int
  | LUndefined

datatype log_entry = LogEntry log_level "(string \<times> log_value) list" string

text \<open>
  An asynchronous computation that is awaited is modelled by its outcome, a thrown value
  (\<open>Inl\<close>) or a result (\<open>Inr\<close>), together with the trace of collaborator calls it made,
  in order. Sequencing stops at the first throw, as \<open>await\<close> in a function body does;
  \<open>io_catch\<close> is \<open>try { ... } catch (err) { ... }\<close>.
\<close>

type_synonym ('e, 'a) io = "(exn + 'a) \<times> 'e list"

definition io_return :: "'a \<Rightarrow> ('e, 'a) io" where
  "io_return x = (Inr x, [])"

definition io_throw :: "exn \<Rightarrow> ('e, 'a) io" where
  "io_throw err = (Inl err, [])"

definition io_bind :: "('e, 'a) io \<Rightarrow> ('a \<Rightarrow> ('e, 'b) io) \<Rightarrow> ('e, 'b) io" where
  "io_bind m f =
     (case m of
        (Inl err, t) \<Rightarrow> (Inl err, t)
      | (Inr v, t) \<Rightarrow> (case f v of (r, t') \<Rightarrow> (r, t @ t')))"

definition io_catch :: "('e, 'a) io \<Rightarrow> (exn \<Rightarrow> ('e, 'a) io) \<Rightarrow> ('e, 'a) io" where
  "io_catch m h =
     (case m of
        (Inl err, t) \<Rightarrow> (case h err of (r, t') \<Rightarrow> (r, t @ t'))
      | (Inr v, t) \<Rightarrow> (Inr v, t))"

text \<open>A call of a collaborator: the call is recorded, the collaborator's answer is the outcome.\<close>

definition io_call :: "'e \<Rightarrow> exn + 'a \<Rightarrow> ('e, 'a) io" where
  "io_call eff answer = (answer, [eff])"

text \<open>A call of a built-in that has no effect but may throw (\<open>JSON.parse\<close>, \<open>JSON.stringify\<close>).\<close>

definition io_builtin :: "exn + 'a \<Rightarrow> ('e, 'a) io" where
  "io_builtin answer = (answer, [])"

text \<open>\<open>String(n)\<close> for a non-negative integer: its decimal digits.\<close>

definition digit_char :: "nat \<Rightarrow> char" where
  "digit_char d = ''0123456789'' ! d"

function string_of_nat :: "nat \<Rightarrow> string" where
  "string_of_nat n =
     (if n < 10 then [digit_char n]
      else string_of_nat (n div 10) @ [digit_char (n mod 10)])"
  by pat_completeness auto
termination
  by (relation "measure (\<lambda>n. n)") auto

declare string_of_nat.simps [simp del]

section \<open>Identity verifier (createDidDocumentVerifier in src/lib/at-uri.ts)\<close>

definition DID_DOC_CACHE_PREFIX :: string where
  "DID_DOC_CACHE_PREFIX = ''barazo:did-doc:''"

definition DID_DOC_SOFT_TTL :: nat where
  "DID_DOC_SOFT_TTL = 3600"

definition DID_DOC_HARD_TTL :: nat where
  "DID_DOC_HARD_TTL = 7200"

definition PLC_DIRECTORY_URL :: string where
  "PLC_DIRECTORY_URL = ''https://plc.directory''"

definition PLC_FETCH_TIMEOUT :: nat where
  "PLC_FETCH_TIMEOUT = 5000"

text \<open>\<open>DidVerificationResult = { active: true } | { active: false; reason: string }\<close>\<close>

datatype DidVerificationResult = Active | Inactive string

record CachedDidEntry =
  active :: bool
  reason :: "string option"
  resolvedAt :: int

text \<open>The part of a \<open>fetch\<close> response that the code reads.\<close>

record response =
  ok :: bool
  status :: nat

text \<open>
  The collaborators and built-ins of the verifier, as the answers they give during one
  call of \<open>verify\<close>:
  \<^item> \<open>cache_get key\<close>: \<open>cache.get(key)\<close>, the raw string, \<open>None\<close> for \<open>null\<close>, or a throw;
  \<^item> \<open>cache_set key value ttl\<close>: \<open>cache.set(key, value, 'EX', ttl)\<close>;
  \<^item> \<open>json_parse raw\<close>: \<open>JSON.parse(raw) as CachedDidEntry\<close>, which throws on malformed text;
  \<^item> \<open>json_stringify entry\<close>: \<open>JSON.stringify(entry)\<close> of a cache entry;
  \<^item> \<open>fetch url\<close>: the request to the directory with its five-second abort signal; a
    network failure or the timeout is a throw;
  \<^item> \<open>date_now\<close>: the reading of \<open>Date.now()\<close> in \<open>verify\<close>, and \<open>date_now_cached\<close>: the
    later reading of \<open>Date.now()\<close> in \<open>cacheResult\<close>.
\<close>

record verifier_env =
  cache_get :: "string \<Rightarrow> exn + string option"
  cache_set :: "string \<Rightarrow> string \<Rightarrow> nat \<Rightarrow> exn + unit"
  json_parse :: "string \<Rightarrow> exn + CachedDidEntry"
  json_stringify :: "CachedDidEntry \<Rightarrow> string"
  fetch :: "string \<Rightarrow> exn + response"
  date_now :: int
  date_now_cached :: int

text \<open>
  The calls the verifier makes. \<open>Detached t\<close> is a promise that is started and not
  awaited: \<open>t\<close> is the trace of that task, and its outcome never reaches the caller.
\<close>

datatype verifier_effect =
    VLog log_entry
  | CacheGet string
  | CacheSet string string nat
  | Fetch string nat
  | Detached "verifier_effect list"

definition verifier_logger ::
  "log_level \<Rightarrow> (string \<times> log_value) list \<Rightarrow> string \<Rightarrow> (verifier_effect, unit) io" where
  "verifier_logger lvl flds msg = (Inr (), [VLog (LogEntry lvl flds msg)])"

definition io_detach :: "(verifier_effect, 'a) io \<Rightarrow> (verifier_effect, unit) io" where
  "io_detach task = (Inr (), [Detached (snd task)])"

definition resolveFromPlc :: "verifier_env \<Rightarrow> string \<Rightarrow> (verifier_effect, DidVerificationResult) io" where
  "resolveFromPlc env d =
     (let url = PLC_DIRECTORY_URL @ ''/'' @ d in
      io_bind (io_call (Fetch url PLC_FETCH_TIMEOUT) (fetch env url)) (\<lambda>resp.
        if ok resp then io_return Active
        else if status resp = 410 then io_return (Inactive ''DID has been tombstoned'')
        else if status resp = 404 then io_return (Inactive ''DID not found in PLC directory'')
        else
          io_bind (verifier_logger LWarn
                     [(''did'', LStr d), (''status'', LNum (int (status resp)))]
                     ''Unexpected PLC directory response'') (\<lambda>_.
          io_throw (Error (''PLC directory returned '' @ string_of_nat (status resp))))))"

definition cacheResult :: "verifier_env \<Rightarrow> string \<Rightarrow> DidVerificationResult \<Rightarrow> (verifier_effect, unit) io" where
  "cacheResult env d result =
     (let entry = \<lparr> active = (result = Active),
                    reason = (case result of Active \<Rightarrow> None | Inactive r \<Rightarrow> Some r),
                    resolvedAt = date_now_cached env \<rparr>;
          key = DID_DOC_CACHE_PREFIX @ d;
          serialized = json_stringify env entry
      in io_call (CacheSet key serialized DID_DOC_HARD_TTL) (cache_set env key serialized DID_DOC_HARD_TTL))"

definition backgroundRefresh :: "verifier_env \<Rightarrow> string \<Rightarrow> (verifier_effect, unit) io" where
  "backgroundRefresh env d =
     io_detach
       (io_catch
          (io_bind (resolveFromPlc env d) (\<lambda>result.
           io_bind (cacheResult env d result) (\<lambda>_.
           verifier_logger LDebug [(''did'', LStr d)] ''Background DID document refresh completed'')))
          (\<lambda>err. verifier_logger LWarn [(''err'', LErr err), (''did'', LStr d)]
                    ''Background DID document refresh failed''))"

text \<open>
  Step 1 of \<open>verify\<close>, the first \<open>try\<close> block with its \<open>catch\<close>: \<open>Some v\<close> when the block
  returns \<open>v\<close> from \<open>verify\<close>, \<open>None\<close> when control falls through to step 2.
\<close>

definition verify_cached :: "verifier_env \<Rightarrow> string \<Rightarrow> (verifier_effect, DidVerificationResult option) io" where
  "verify_cached env d =
     io_catch
       (io_bind (io_call (CacheGet (DID_DOC_CACHE_PREFIX @ d)) (cache_get env (DID_DOC_CACHE_PREFIX @ d))) (\<lambda>raw.
          case raw of
            None \<Rightarrow> io_return None
          | Some rawText \<Rightarrow>
              io_bind (io_builtin (json_parse env rawText)) (\<lambda>cachedEntry.
                let age = date_now env - resolvedAt cachedEntry;
                    isPastSoftTtl = (age > int DID_DOC_SOFT_TTL * 1000)
                in if \<not> isPastSoftTtl then
                     (if active cachedEntry then io_return (Some Active)
                      else io_return (Some (Inactive
                             (case reason cachedEntry of Some r \<Rightarrow> r | None \<Rightarrow> ''DID is not active''))))
                   else
                     io_bind (backgroundRefresh env d) (\<lambda>_.
                       if active cachedEntry then io_return (Some Active)
                       else io_return (Some (Inactive
                              (case reason cachedEntry of Some r \<Rightarrow> r | None \<Rightarrow> ''DID is not active'')))))))
       (\<lambda>err. io_bind (verifier_logger LWarn [(''err'', LErr err), (''did'', LStr d)]
                          ''DID document cache read failed'') (\<lambda>_.
               io_return None))"

text \<open>Step 2 of \<open>verify\<close>, the second \<open>try\<close> block with its \<open>catch\<close>.\<close>

definition verify_resolve :: "verifier_env \<Rightarrow> string \<Rightarrow> (verifier_effect, DidVerificationResult) io" where
  "verify_resolve env d =
     io_catch
       (io_bind (resolveFromPlc env d) (\<lambda>result.
        io_bind (io_detach
                   (io_catch (cacheResult env d result)
                      (\<lambda>err. verifier_logger LWarn [(''err'', LErr err), (''did'', LStr d)]
                                ''Failed to cache DID verification result''))) (\<lambda>_.
        io_return result)))
       (\<lambda>err. io_bind (verifier_logger LError [(''err'', LErr err), (''did'', LStr d)]
                          ''DID document resolution failed'') (\<lambda>_.
               io_return (Inactive ''DID document resolution failed'')))"

definition verify :: "verifier_env \<Rightarrow> string \<Rightarrow> (verifier_effect, DidVerificationResult) io" where
  "verify env d =
     (if \<not> prefix ''did:plc:'' d then io_return Active
      else
        io_bind (verify_cached env d) (\<lambda>returned.
          case returned of
            Some verdict \<Rightarrow> io_return verdict
          | None \<Rightarrow> verify_resolve env d))"

section \<open>Supported collections (src/firehose/types.ts)\<close>

text \<open>
  Modelled from the spec: the module src/firehose/types.ts (\<open>SUPPORTED_COLLECTIONS\<close>,
  \<open>COLLECTION_MAP\<close>, \<open>RecordEvent\<close>) is not among the sources. The spec gives a closed set of
  three content kinds, each mapped to one indexer name, and the event shape
  \<open>{id, collection, action, identity, recordKey, payload?, contentHash?, isLive}\<close>; the
  collection names and indexer names are those of tests/unit/firehose/types.test.ts and
  of the keys of \<open>schemaMap\<close> in validation.ts. The field names of the event are those
  that \<open>handle\<close> destructures, with the prefix \<open>ev_\<close>. \<open>isSupportedCollection\<close> is the
  function of validation.ts; record.ts imports the function of that name from types.ts,
  the same membership test.
\<close>

definition SUPPORTED_COLLECTIONS :: "string list" where
  "SUPPORTED_COLLECTIONS =
     [''forum.atgora.topic.post'', ''forum.atgora.topic.reply'',
      ''forum.atgora.interaction.reaction'']"

definition COLLECTION_MAP :: "string \<Rightarrow> string option" where
  "COLLECTION_MAP collection =
     (if collection = ''forum.atgora.topic.post'' then Some ''topic''
      else if collection = ''forum.atgora.topic.reply'' then Some ''reply''
      else if collection = ''forum.atgora.interaction.reaction'' then Some ''reaction''
      else None)"

record 'r RecordEvent =
  ev_id :: int
  ev_collection :: string
  ev_action :: action
  ev_did :: string
  ev_rkey :: string
  ev_record :: "'r option"
  ev_cid :: "string option"
  ev_live :: bool

definition isSupportedCollection :: "string \<Rightarrow> bool" where
  "isSupportedCollection collection = (collection \<in> set SUPPORTED_COLLECTIONS)"

section \<open>Record validator (src/firehose/validation.ts)\<close>

definition MAX_RECORD_SIZE :: nat where
  "MAX_RECORD_SIZE = 64 * 1024"

datatype 'r ValidationResult = Success 'r | Failure string

text \<open>
  A JavaScript string is a sequence of UTF-16 code units, and \<open>length\<close> counts them.
\<close>

type_synonym js_string = "16 word list"

datatype TrustStatus = New | Trusted

datatype indexer = Topic | Reply | Reaction

text \<open>
  The parameter objects given to the indexers: \<open>{uri, rkey, did}\<close>, extended by
  \<open>{cid, record, live, trustStatus}\<close> for create and update, and by \<open>rootUri\<close> (reply) or
  \<open>subjectUri\<close> (reaction) for delete.
\<close>

record base_params =
  uri :: string
  rkey :: string
  did :: string

record 'r index_params = base_params +
  cid :: string
  record_data :: 'r
  live :: bool
  trustStatus :: TrustStatus

datatype reference = NoReference | RootUri string | SubjectUri string

record delete_params = base_params +
  compensating :: reference

datatype 'r indexer_call =
    HandleCreate indexer "'r index_params"
  | HandleUpdate indexer "'r index_params"
  | HandleDelete indexer delete_params

text \<open>A row of \<open>select({did, accountCreatedAt}).from(users)\<close>; \<open>None\<close> is SQL \<open>null\<close>.\<close>

record user_row =
  user_did :: string
  accountCreatedAt :: "date option"

text \<open>
  The collaborators and built-ins of the validator and the dispatcher, as the answers
  they give during the handling of one event (each is called at most once per event):
  \<^item> \<open>stringify r\<close>: \<open>JSON.stringify(r)\<close>, the serialization, \<open>None\<close> for \<open>undefined\<close>,
    or a throw;
  \<^item> \<open>safe_parse collection r\<close>: \<open>schemaMap[collection].safeParse(r).success\<close>, the schema
    of the external lexicon package;
  \<^item> \<open>select_replies u\<close>, \<open>select_reactions u\<close>: the \<open>rootUri\<close> (\<open>subjectUri\<close>) column of
    the rows whose uri is \<open>u\<close>; \<open>select_users d\<close>, \<open>update_user\<close>, \<open>insert_user\<close>: the
    queries on the users table;
  \<^item> \<open>resolveCreationDate\<close>, \<open>determineTrustStatus\<close>: the account-age service;
  \<^item> \<open>run_indexer call\<close>: the entry point of an indexer.
\<close>

record 'r handler_env =
  stringify :: "'r \<Rightarrow> exn + js_string option"
  safe_parse :: "string \<Rightarrow> 'r \<Rightarrow> exn + bool"
  select_replies :: "string \<Rightarrow> exn + string list"
  select_reactions :: "string \<Rightarrow> exn + string list"
  select_users :: "string \<Rightarrow> exn + user_row list"
  update_user :: "string \<Rightarrow> date \<Rightarrow> exn + unit"
  insert_user :: "string \<Rightarrow> string \<Rightarrow> date option \<Rightarrow> exn + unit"
  resolveCreationDate :: "string \<Rightarrow> exn + date option"
  determineTrustStatus :: "date option \<Rightarrow> exn + TrustStatus"
  run_indexer :: "'r indexer_call \<Rightarrow> exn + unit"

datatype 'r effect =
    Log log_entry
  | SafeParse string 'r
  | SelectReplies string
  | SelectReactions string
  | SelectUsers string
  | UpdateUser string date
  | InsertUser string string "date option"
  | ResolveCreationDate string
  | DetermineTrustStatus "date option"
  | IndexerCall "'r indexer_call"

definition logger ::
  "log_level \<Rightarrow> (string \<times> log_value) list \<Rightarrow> string \<Rightarrow> ('r effect, unit) io" where
  "logger lvl flds msg = (Inr (), [Log (LogEntry lvl flds msg)])"

definition validateRecord ::
  "'r handler_env \<Rightarrow> string \<Rightarrow> 'r \<Rightarrow> ('r effect, 'r ValidationResult) io" where
  "validateRecord env collection rec =
     (if \<not> isSupportedCollection collection then
        io_return (Failure (''Unsupported collection: '' @ collection))
      else
        io_bind (io_builtin (stringify env rec)) (\<lambda>serialized.
          case serialized of
            None \<Rightarrow> io_throw (TypeError ''Cannot read properties of undefined (reading length)'')
          | Some s \<Rightarrow>
              if length s > MAX_RECORD_SIZE then
                io_return (Failure (''Record exceeds maximum size of ''
                                     @ string_of_nat MAX_RECORD_SIZE @ '' bytes''))
              else
                io_bind (io_call (SafeParse collection rec) (safe_parse env collection rec)) (\<lambda>success.
                  if \<not> success then io_return (Failure (''Validation failed for '' @ collection))
                  else io_return (Success rec))))"

section \<open>Record event dispatcher (RecordHandler in src/firehose/handlers/record.ts)\<close>

definition dispatchCreate ::
  "'r handler_env \<Rightarrow> string option \<Rightarrow> 'r index_params \<Rightarrow> ('r effect, unit) io" where
  "dispatchCreate env indexerName params =
     (if indexerName = Some ''topic'' then
        io_call (IndexerCall (HandleCreate Topic params)) (run_indexer env (HandleCreate Topic params))
      else if indexerName = Some ''reply'' then
        io_call (IndexerCall (HandleCreate Reply params)) (run_indexer env (HandleCreate Reply params))
      else if indexerName = Some ''reaction'' then
        io_call (IndexerCall (HandleCreate Reaction params)) (run_indexer env (HandleCreate Reaction params))
      else io_return ())"

definition dispatchUpdate ::
  "'r handler_env \<Rightarrow> string option \<Rightarrow> 'r index_params \<Rightarrow> ('r effect, unit) io" where
  "dispatchUpdate env indexerName params =
     (if indexerName = Some ''topic'' then
        io_call (IndexerCall (HandleUpdate Topic params)) (run_indexer env (HandleUpdate Topic params))
      else if indexerName = Some ''reply'' then
        io_call (IndexerCall (HandleUpdate Reply params)) (run_indexer env (HandleUpdate Reply params))
      else io_return ())"

definition delete_call :: "indexer \<Rightarrow> base_params \<Rightarrow> reference \<Rightarrow> 'r indexer_call" where
  "delete_call ix params ref =
     HandleDelete ix \<lparr> uri = uri params, rkey = rkey params, did = did params, compensating = ref \<rparr>"

definition dispatchDelete ::
  "'r handler_env \<Rightarrow> string option \<Rightarrow> base_params \<Rightarrow> ('r effect, unit) io" where
  "dispatchDelete env indexerName params =
     (if indexerName = Some ''topic'' then
        io_call (IndexerCall (delete_call Topic params NoReference))
                (run_indexer env (delete_call Topic params NoReference))
      else if indexerName = Some ''reply'' then
        io_bind (io_call (SelectReplies (uri params)) (select_replies env (uri params))) (\<lambda>replyRows.
          let rootUri = (case replyRows of [] \<Rightarrow> [] | r # _ \<Rightarrow> r) in
          io_bind (if rootUri = [] then
                     logger LDebug [(''uri'', LStr (uri params))]
                       ''Reply not found in DB for delete, count decrement will be skipped''
                   else io_return ()) (\<lambda>_.
          io_call (IndexerCall (delete_call Reply params (RootUri rootUri)))
                  (run_indexer env (delete_call Reply params (RootUri rootUri)))))
      else if indexerName = Some ''reaction'' then
        io_bind (io_call (SelectReactions (uri params)) (select_reactions env (uri params))) (\<lambda>reactionRows.
          let subjectUri = (case reactionRows of [] \<Rightarrow> [] | r # _ \<Rightarrow> r) in
          io_bind (if subjectUri = [] then
                     logger LDebug [(''uri'', LStr (uri params))]
                       ''Reaction not found in DB for delete, count decrement will be skipped''
                   else io_return ()) (\<lambda>_.
          io_call (IndexerCall (delete_call Reaction params (SubjectUri subjectUri)))
                  (run_indexer env (delete_call Reaction params (SubjectUri subjectUri)))))
      else io_return ())"

text \<open>
  \<open>createdAt?.toISOString()\<close>: \<open>undefined\<close> for \<open>null\<close>, the ISO rendering of a valid date, a
  \<open>RangeError\<close> for an Invalid Date.
\<close>

definition optional_toISOString :: "date option \<Rightarrow> exn + log_value" where
  "optional_toISOString createdAt =
     (case createdAt of
        None \<Rightarrow> Inr LUndefined
      | Some (Date t) \<Rightarrow> Inr (LIsoDate t)
      | Some InvalidDate \<Rightarrow> Inl (RangeError ''Invalid time value''))"

text \<open>The \<open>try\<close> block of \<open>upsertUserWithTrustCheck\<close>.\<close>

definition upsert_try :: "'r handler_env \<Rightarrow> string \<Rightarrow> ('r effect, TrustStatus) io" where
  "upsert_try env d =
     io_bind (io_call (SelectUsers d) (select_users env d)) (\<lambda>existing.
       case existing of
         user # _ \<Rightarrow>
           (case accountCreatedAt user of
              Some stored \<Rightarrow>
                io_call (DetermineTrustStatus (Some stored)) (determineTrustStatus env (Some stored))
            | None \<Rightarrow>
                io_bind (io_call (ResolveCreationDate d) (resolveCreationDate env d)) (\<lambda>createdAt.
                io_bind (case createdAt of
                           Some c \<Rightarrow> io_call (UpdateUser d c) (update_user env d c)
                         | None \<Rightarrow> io_return ()) (\<lambda>_.
                io_call (DetermineTrustStatus createdAt) (determineTrustStatus env createdAt))))
       | [] \<Rightarrow>
           io_bind (io_call (ResolveCreationDate d) (resolveCreationDate env d)) (\<lambda>createdAt.
           io_bind (io_call (InsertUser d d createdAt) (insert_user env d d createdAt)) (\<lambda>_.
           io_bind (io_call (DetermineTrustStatus createdAt) (determineTrustStatus env createdAt)) (\<lambda>ts.
           io_bind (if ts = New then
                      io_bind (io_builtin (optional_toISOString createdAt)) (\<lambda>iso.
                      logger LInfo [(''did'', LStr d), (''accountCreatedAt'', iso)]
                        ''New account detected (< 24h old), indexing with trust_status: new'')
                    else io_return ()) (\<lambda>_.
           io_return ts)))))"

definition upsertUserWithTrustCheck :: "'r handler_env \<Rightarrow> string \<Rightarrow> ('r effect, TrustStatus) io" where
  "upsertUserWithTrustCheck env d =
     io_catch (upsert_try env d)
       (\<lambda>err. io_bind (logger LError [(''err'', LErr err), (''did'', LStr d)]
                          ''Failed to upsert user with trust check'') (\<lambda>_.
               io_return Trusted))"

text \<open>The \<open>try\<close> block of \<open>handle\<close>.\<close>

definition handle_try :: "'r handler_env \<Rightarrow> 'r RecordEvent \<Rightarrow> ('r effect, unit) io" where
  "handle_try env event =
     (let collection = ev_collection event in
      if \<not> isSupportedCollection collection then io_return ()
      else
        let u = ''at://'' @ ev_did event @ ''/'' @ collection @ ''/'' @ ev_rkey event;
            indexerName = COLLECTION_MAP collection
        in
        if ev_action event = Delete then
          dispatchDelete env indexerName \<lparr> uri = u, rkey = ev_rkey event, did = ev_did event \<rparr>
        else
          case ev_record event of
            None \<Rightarrow>
              logger LWarn [(''collection'', LStr collection), (''action'', LAction (ev_action event)),
                            (''did'', LStr (ev_did event)), (''rkey'', LStr (ev_rkey event))]
                ''Record event missing record data''
          | Some rec \<Rightarrow>
              io_bind (validateRecord env collection rec) (\<lambda>validation.
                case validation of
                  Failure msg \<Rightarrow>
                    logger LDebug [(''collection'', LStr collection), (''did'', LStr (ev_did event)),
                                   (''rkey'', LStr (ev_rkey event)), (''error'', LStr msg)]
                      ''Record validation failed''
                | Success _ \<Rightarrow>
                    io_bind (if ev_action event = Create then upsertUserWithTrustCheck env (ev_did event)
                             else io_return Trusted) (\<lambda>ts.
                      let params = \<lparr> uri = u, rkey = ev_rkey event, did = ev_did event,
                                      cid = (case ev_cid event of Some c \<Rightarrow> c | None \<Rightarrow> []),
                                      record_data = rec, live = ev_live event, trustStatus = ts \<rparr>
                      in if ev_action event = Create then dispatchCreate env indexerName params
                         else dispatchUpdate env indexerName params)))"

definition handle :: "'r handler_env \<Rightarrow> 'r RecordEvent \<Rightarrow> ('r effect, unit) io" where
  "handle env event =
     io_catch (handle_try env event)
       (\<lambda>err. logger LError [(''err'', LErr err), (''eventId'', LNum (ev_id event)),
                              (''collection'', LStr (ev_collection event))]
                 ''Error handling record event'')"

section \<open>Notions of the specification\<close>

text \<open>
  A valid date: one that is not an Invalid Date, its time value within the range of
  time values. A date lies in the clamp's range for a given now, in the spec's words:
  between now minus one hour and now plus five minutes, both ends included; a comparison
  with \<open>NaN\<close> is false.
\<close>

definition valid_date :: "date \<Rightarrow> bool" where
  "valid_date d = (case d of Date t \<Rightarrow> \<bar>t\<bar> \<le> 8640000000000000 | InvalidDate \<Rightarrow> False)"

definition spec_in_range :: "date \<Rightarrow> date \<Rightarrow> bool" where
  "spec_in_range r now =
     (case (getTime r, getTime now) of
        (Some t, Some n) \<Rightarrow> n - 3600000 \<le> t \<and> t \<le> n + 300000
      | _ \<Rightarrow> False)"

text \<open>
  The line that the outer boundary of \<open>handle\<close> logs for a value caught there, and the
  line that the trust check logs for a value caught inside it.
\<close>

definition boundary_log :: "'r RecordEvent \<Rightarrow> exn \<Rightarrow> 'r effect" where
  "boundary_log event err =
     Log (LogEntry LError
            [(''err'', LErr err), (''eventId'', LNum (ev_id event)),
             (''collection'', LStr (ev_collection event))]
            ''Error handling record event'')"

definition trust_check_log :: "string \<Rightarrow> exn \<Rightarrow> 'r effect" where
  "trust_check_log d err =
     Log (LogEntry LError [(''err'', LErr err), (''did'', LStr d)]
            ''Failed to upsert user with trust check'')"

text \<open>
  A computation calls an indexer at most once, as the last of its calls, and its outcome
  is then the outcome of that call.
\<close>

definition indexer_last :: "'r handler_env \<Rightarrow> ('r effect, 'a) io \<Rightarrow> bool" where
  "indexer_last env m =
     ((\<forall>c. IndexerCall c \<notin> set (snd m))
      \<or> (\<exists>c pre. snd m = pre @ [IndexerCall c]
             \<and> (\<forall>c'. IndexerCall c' \<notin> set pre)
             \<and> (case run_indexer env c of Inl err \<Rightarrow> fst m = Inl err | Inr _ \<Rightarrow> \<exists>v. fst m = Inr v)))"

text \<open>
  The byte length of a serialization, in the spec's words: the number of bytes of the
  UTF-8 encoding of the string. A code unit below \<open>0x80\<close> takes one byte, one below
  \<open>0x800\<close> two, any other three; a high surrogate followed by a low surrogate is one code
  point of four bytes.
\<close>

definition is_high_surrogate :: "16 word \<Rightarrow> bool" where
  "is_high_surrogate c = (0xD800 \<le> c \<and> c \<le> 0xDBFF)"

definition is_low_surrogate :: "16 word \<Rightarrow> bool" where
  "is_low_surrogate c = (0xDC00 \<le> c \<and> c \<le> 0xDFFF)"

definition code_unit_bytes :: "16 word \<Rightarrow> nat" where
  "code_unit_bytes c = (if c < 0x80 then 1 else if c < 0x800 then 2 else 3)"

fun spec_byte_length :: "js_string \<Rightarrow> nat" where
  "spec_byte_length [] = 0"
| "spec_byte_length [c] = code_unit_bytes c"
| "spec_byte_length (c # c' # cs) =
     (if is_high_surrogate c \<and> is_low_surrogate c' then 4 + spec_byte_length cs
      else code_unit_bytes c + spec_byte_length (c' # cs))"

text \<open>
  The verifier has no usable cache entry for an identity: the cache answers \<open>null\<close>, the
  read throws, or the stored text does not parse.
\<close>

definition cache_unusable :: "verifier_env \<Rightarrow> string \<Rightarrow> bool" where
  "cache_unusable env d =
     (case cache_get env (DID_DOC_CACHE_PREFIX @ d) of
        Inl _ \<Rightarrow> True
      | Inr None \<Rightarrow> True
      | Inr (Some raw) \<Rightarrow> (case json_parse env raw of Inl _ \<Rightarrow> True | Inr _ \<Rightarrow> False))"

section \<open>Example environments\<close>

text \<open>
  A verifier environment with an empty cache and a directory that answers 200, and one
  whose cache holds an inactive entry resolved \<open>age\<close> milliseconds before the reading of
  the clock, with a directory that cannot be reached.
\<close>

definition example_verifier_env :: verifier_env where
  "example_verifier_env =
     \<lparr> cache_get = (\<lambda>_. Inr None),
       cache_set = (\<lambda>_ _ _. Inr ()),
       json_parse = (\<lambda>_. Inl (Error ''Unexpected end of JSON input'')),
       json_stringify = (\<lambda>entry. if active entry then ''active'' else ''inactive''),
       fetch = (\<lambda>_. Inr \<lparr> ok = True, status = 200 \<rparr>),
       date_now = 1771502400000,
       date_now_cached = 1771502400050 \<rparr>"

definition example_cached_env :: "int \<Rightarrow> verifier_env" where
  "example_cached_env age =
     example_verifier_env
       \<lparr> cache_get := (\<lambda>_. Inr (Some ''cached'')),
         json_parse := (\<lambda>_. Inr \<lparr> active = False, reason = Some ''DID has been tombstoned'',
                                    resolvedAt = 1771502400000 - age \<rparr>),
         fetch := (\<lambda>_. Inl (Error ''fetch failed'')) \<rparr>"

definition example_status_env :: "nat \<Rightarrow> verifier_env" where
  "example_status_env code =
     example_verifier_env \<lparr> fetch := (\<lambda>_. Inr \<lparr> ok = False, status = code \<rparr>) \<rparr>"

text \<open>
  A dispatcher environment in which every collaborator succeeds, the local store is
  empty and every document is valid and serializes to \<open>{}\<close>; documents are named by
  strings. \<open>example_event\<close> is an event of a given collection and action.
\<close>

definition example_env :: "string handler_env" where
  "example_env =
     \<lparr> stringify = (\<lambda>_. Inr (Some [0x7B, 0x7D])),
       safe_parse = (\<lambda>_ _. Inr True),
       select_replies = (\<lambda>_. Inr []),
       select_reactions = (\<lambda>_. Inr []),
       select_users = (\<lambda>_. Inr []),
       update_user = (\<lambda>_ _. Inr ()),
       insert_user = (\<lambda>_ _ _. Inr ()),
       resolveCreationDate = (\<lambda>_. Inr None),
       determineTrustStatus = (\<lambda>_. Inr Trusted),
       run_indexer = (\<lambda>_. Inr ()) \<rparr>"

definition example_event :: "string \<Rightarrow> action \<Rightarrow> string RecordEvent" where
  "example_event collection act =
     \<lparr> ev_id = 42, ev_collection = collection, ev_action = act, ev_did = ''did:plc:alice'',
       ev_rkey = ''3kabc'', ev_record = (if act = Delete then None else Some ''doc''),
       ev_cid = Some ''bafy'', ev_live = True \<rparr>"

text \<open>
  The serialization of the document \<open>{t: s}\<close> where \<open>s\<close> is the euro sign (U+20AC)
  repeated 30000 times: the six code units of \<open>{"t":"\<close>, the 30000 code units of \<open>s\<close>, and
  the two of \<open>"}\<close>. The serialization of the string \<open>a\<close> repeated 65535 times: the
  65535 code units between two quotation marks.
\<close>

definition euro_serialized :: js_string where
  "euro_serialized = [0x7B, 0x22, 0x74, 0x22, 0x3A, 0x22] @ replicate 30000 0x20AC @ [0x22, 0x7D]"

definition ascii_serialized :: js_string where
  "ascii_serialized = [0x22] @ replicate 65535 0x61 @ [0x22]"

section \<open>Outcomes and traces of the combinators\<close>

lemma fst_io_bind:
  "fst (io_bind m f) = (case fst m of Inl err \<Rightarrow> Inl err | Inr v \<Rightarrow> fst (f v))"
  by (cases m) (auto simp: io_bind_def split: sum.splits prod.splits)

lemma snd_io_bind:
  "snd (io_bind m f) = (case fst m of Inl err \<Rightarrow> snd m | Inr v \<Rightarrow> snd m @ snd (f v))"
  by (cases m) (auto simp: io_bind_def split: sum.splits prod.splits)

lemma fst_io_catch:
  "fst (io_catch m h) = (case fst m of Inl err \<Rightarrow> fst (h err) | Inr v \<Rightarrow> Inr v)"
  by (cases m) (auto simp: io_catch_def split: sum.splits prod.splits)

lemma snd_io_catch:
  "snd (io_catch m h) = (case fst m of Inl err \<Rightarrow> snd m @ snd (h err) | Inr v \<Rightarrow> snd m)"
  by (cases m) (auto simp: io_catch_def split: sum.splits prod.splits)

lemmas io_simps = fst_io_bind snd_io_bind fst_io_catch snd_io_catch

lemma fst_io_return [simp]: "fst (io_return v) = Inr v"
  by (simp add: io_return_def)

lemma snd_io_return [simp]: "snd (io_return v) = []"
  by (simp add: io_return_def)

lemma fst_io_throw [simp]: "fst (io_throw err) = Inl err"
  by (simp add: io_throw_def)

lemma snd_io_throw [simp]: "snd (io_throw err) = []"
  by (simp add: io_throw_def)

lemma fst_io_call [simp]: "fst (io_call eff answer) = answer"
  by (simp add: io_call_def)

lemma snd_io_call [simp]: "snd (io_call eff answer) = [eff]"
  by (simp add: io_call_def)

lemma fst_io_builtin [simp]: "fst (io_builtin answer) = answer"
  by (simp add: io_builtin_def)

lemma snd_io_builtin [simp]: "snd (io_builtin answer) = []"
  by (simp add: io_builtin_def)

lemma fst_io_detach [simp]: "fst (io_detach task) = Inr ()"
  by (simp add: io_detach_def)

lemma snd_io_detach [simp]: "snd (io_detach task) = [Detached (snd task)]"
  by (simp add: io_detach_def)

lemma fst_logger [simp]: "fst (logger lvl flds msg) = Inr ()"
  by (simp add: logger_def)

lemma snd_logger [simp]: "snd (logger lvl flds msg) = [Log (LogEntry lvl flds msg)]"
  by (simp add: logger_def)

lemma fst_verifier_logger [simp]: "fst (verifier_logger lvl flds msg) = Inr ()"
  by (simp add: verifier_logger_def)

lemma snd_verifier_logger [simp]:
  "snd (verifier_logger lvl flds msg) = [VLog (LogEntry lvl flds msg)]"
  by (simp add: verifier_logger_def)

lemma string_of_nat_65536: "string_of_nat 65536 = ''65536''"
  by (simp add: string_of_nat.simps digit_char_def)

lemmas verifier_defs =
  verify_def verify_cached_def verify_resolve_def backgroundRefresh_def cacheResult_def
  resolveFromPlc_def DID_DOC_CACHE_PREFIX_def DID_DOC_SOFT_TTL_def DID_DOC_HARD_TTL_def
  PLC_DIRECTORY_URL_def PLC_FETCH_TIMEOUT_def example_verifier_env_def example_cached_env_def
  example_status_env_def cache_unusable_def Let_def

section \<open>The serialized length and the byte length\<close>

lemma spec_byte_length_Cons:
  "\<not> is_high_surrogate c \<Longrightarrow> spec_byte_length (c # cs) = code_unit_bytes c + spec_byte_length cs"
  by (cases cs) simp_all

lemma spec_byte_length_replicate_euro:
  "spec_byte_length (replicate n 0x20AC @ cs) = 3 * n + spec_byte_length cs"
  by (induction n) (simp_all add: spec_byte_length_Cons is_high_surrogate_def code_unit_bytes_def)

lemma spec_byte_length_euro: "spec_byte_length euro_serialized = 90008"
  by (simp add: euro_serialized_def spec_byte_length_Cons spec_byte_length_replicate_euro
      is_high_surrogate_def code_unit_bytes_def)

lemma length_euro: "length euro_serialized = 30008"
  by (simp add: euro_serialized_def)

text \<open>The byte length is never below the number of code units.\<close>

lemma length_le_spec_byte_length: "length s \<le> spec_byte_length s"
  by (induction s rule: spec_byte_length.induct) (auto simp: code_unit_bytes_def)

section \<open>The verifier, step by step\<close>

lemma verify_cached_total: "\<exists>r. fst (verify_cached env d) = Inr r"
  unfolding verify_cached_def backgroundRefresh_def
  by (auto simp: io_simps Let_def split: sum.splits option.splits)

lemma verify_resolve_total: "\<exists>r. fst (verify_resolve env d) = Inr r"
  unfolding verify_resolve_def
  by (auto simp: io_simps split: sum.splits)

lemma verify_cached_unusable:
  "cache_unusable env d \<Longrightarrow> fst (verify_cached env d) = Inr None"
  by (auto simp: cache_unusable_def verify_cached_def io_simps split: sum.splits option.splits)

lemma fst_verify_unusable:
  assumes "prefix ''did:plc:'' d" and "cache_unusable env d"
  shows "fst (verify env d) = fst (verify_resolve env d)"
  using assms by (simp add: verify_def io_simps verify_cached_unusable)

lemma snd_verify_unusable:
  assumes "prefix ''did:plc:'' d" and "cache_unusable env d"
  shows "snd (verify env d) = snd (verify_cached env d) @ snd (verify_resolve env d)"
  using assms by (simp add: verify_def io_simps verify_cached_unusable)

lemma fst_resolveFromPlc:
  "fst (resolveFromPlc env d) =
     (case fetch env (PLC_DIRECTORY_URL @ ''/'' @ d) of
        Inl err \<Rightarrow> Inl err
      | Inr resp \<Rightarrow>
          if ok resp then Inr Active
          else if status resp = 410 then Inr (Inactive ''DID has been tombstoned'')
          else if status resp = 404 then Inr (Inactive ''DID not found in PLC directory'')
          else Inl (Error (''PLC directory returned '' @ string_of_nat (status resp))))"
  by (simp add: resolveFromPlc_def Let_def io_simps split: sum.splits)

lemma fst_verify_resolve:
  "fst (verify_resolve env d) =
     (case fst (resolveFromPlc env d) of
        Inl err \<Rightarrow> Inr (Inactive ''DID document resolution failed'')
      | Inr v \<Rightarrow> Inr v)"
  by (simp add: verify_resolve_def io_simps split: sum.splits)

lemma snd_verify_resolve_ok:
  "fst (resolveFromPlc env d) = Inr v \<Longrightarrow>
   snd (verify_resolve env d) =
     snd (resolveFromPlc env d) @
     [Detached (snd (io_catch (cacheResult env d v)
        (\<lambda>err. verifier_logger LWarn [(''err'', LErr err), (''did'', LStr d)]
                  ''Failed to cache DID verification result'')))]"
  by (simp add: verify_resolve_def io_simps)

lemma snd_cacheResult_catch:
  "\<exists>ws. snd (io_catch (cacheResult env d v) h) =
     CacheSet (DID_DOC_CACHE_PREFIX @ d)
       (json_stringify env \<lparr> active = (v = Active),
                              reason = (case v of Active \<Rightarrow> None | Inactive r \<Rightarrow> Some r),
                              resolvedAt = date_now_cached env \<rparr>)
       DID_DOC_HARD_TTL # ws"
  by (simp add: cacheResult_def Let_def io_simps split: sum.splits)

section \<open>The validator and the dispatcher, step by step\<close>

lemmas handler_defs =
  handle_def handle_try_def validateRecord_def dispatchCreate_def dispatchUpdate_def
  dispatchDelete_def delete_call_def upsertUserWithTrustCheck_def upsert_try_def
  COLLECTION_MAP_def MAX_RECORD_SIZE_def example_env_def example_event_def Let_def

lemma isSupportedCollection_iff:
  "isSupportedCollection c \<longleftrightarrow>
     c = ''forum.atgora.topic.post'' \<or> c = ''forum.atgora.topic.reply''
     \<or> c = ''forum.atgora.interaction.reaction''"
  by (simp add: isSupportedCollection_def SUPPORTED_COLLECTIONS_def)

lemma snd_validateRecord_cases:
  "snd (validateRecord env collection rec) = [] \<or>
   snd (validateRecord env collection rec) = [SafeParse collection rec]"
  by (auto simp: validateRecord_def io_simps split: sum.splits option.splits)

lemma validateRecord_success_supported:
  "fst (validateRecord env collection rec) = Inr (Success r) \<Longrightarrow> isSupportedCollection collection"
  by (auto simp: validateRecord_def split: if_splits)

lemma fst_handle: "fst (handle env event) = Inr ()"
  by (simp add: handle_def fst_io_catch split: sum.splits)

lemma snd_handle_prefix: "\<exists>ws. snd (handle env event) = snd (handle_try env event) @ ws"
  by (simp add: handle_def snd_io_catch split: sum.splits)

lemma handle_try_delete:
  assumes "ev_action event = Delete" and "isSupportedCollection (ev_collection event)"
  shows "handle_try env event =
           dispatchDelete env (COLLECTION_MAP (ev_collection event))
             \<lparr> uri = ''at://'' @ ev_did event @ ''/'' @ ev_collection event @ ''/'' @ ev_rkey event,
               rkey = ev_rkey event, did = ev_did event \<rparr>"
  using assms by (simp add: handle_try_def Let_def)

lemma handle_try_delete_reply:
  assumes "ev_action event = Delete"
    and "ev_collection event = ''forum.atgora.topic.reply''"
    and "u = ''at://'' @ ev_did event @ ''/'' @ ev_collection event @ ''/'' @ ev_rkey event"
    and "select_replies env u = Inr []"
  shows "snd (handle_try env event) =
          [SelectReplies u,
           Log (LogEntry LDebug [(''uri'', LStr u)]
                  ''Reply not found in DB for delete, count decrement will be skipped''),
           IndexerCall (HandleDelete Reply
             \<lparr> uri = u, rkey = ev_rkey event, did = ev_did event, compensating = RootUri [] \<rparr>)]"
proof -
  have sup: "isSupportedCollection (ev_collection event)"
    using assms(2) by (simp add: isSupportedCollection_iff)
  have "handle_try env event =
          dispatchDelete env (Some ''reply'') \<lparr> uri = u, rkey = ev_rkey event, did = ev_did event \<rparr>"
    using assms(2,3) by (simp add: handle_try_delete [OF assms(1) sup] COLLECTION_MAP_def)
  then show ?thesis
    using assms(4) by (simp add: dispatchDelete_def delete_call_def Let_def io_simps)
qed

lemma handle_try_delete_reaction:
  assumes "ev_action event = Delete"
    and "ev_collection event = ''forum.atgora.interaction.reaction''"
    and "u = ''at://'' @ ev_did event @ ''/'' @ ev_collection event @ ''/'' @ ev_rkey event"
    and "select_reactions env u = Inr []"
  shows "snd (handle_try env event) =
          [SelectReactions u,
           Log (LogEntry LDebug [(''uri'', LStr u)]
                  ''Reaction not found in DB for delete, count decrement will be skipped''),
           IndexerCall (HandleDelete Reaction
             \<lparr> uri = u, rkey = ev_rkey event, did = ev_did event, compensating = SubjectUri [] \<rparr>)]"
proof -
  have sup: "isSupportedCollection (ev_collection event)"
    using assms(2) by (simp add: isSupportedCollection_iff)
  have "handle_try env event =
          dispatchDelete env (Some ''reaction'') \<lparr> uri = u, rkey = ev_rkey event, did = ev_did event \<rparr>"
    using assms(2,3) by (simp add: handle_try_delete [OF assms(1) sup] COLLECTION_MAP_def)
  then show ?thesis
    using assms(4) by (simp add: dispatchDelete_def delete_call_def Let_def io_simps)
qed

text \<open>
  Every collaborator of the trust check that throws makes the \<open>try\<close> block of
  \<open>upsertUserWithTrustCheck\<close> throw: the lookup of the user, the resolution of the
  creation date and the insertion for a new user, the classification.
\<close>

lemma upsert_try_select_fails:
  "select_users env d = Inl err \<Longrightarrow> fst (upsert_try env d) = Inl err"
  by (simp add: upsert_try_def io_simps)

lemma upsert_try_resolve_fails:
  "select_users env d = Inr [] \<Longrightarrow> resolveCreationDate env d = Inl err \<Longrightarrow>
   fst (upsert_try env d) = Inl err"
  by (simp add: upsert_try_def io_simps)

lemma upsert_try_insert_fails:
  "select_users env d = Inr [] \<Longrightarrow> resolveCreationDate env d = Inr c \<Longrightarrow>
   insert_user env d d c = Inl err \<Longrightarrow> fst (upsert_try env d) = Inl err"
  by (simp add: upsert_try_def io_simps)

lemma upsert_try_classify_fails:
  "select_users env d = Inr [] \<Longrightarrow> resolveCreationDate env d = Inr c \<Longrightarrow>
   insert_user env d d c = Inr () \<Longrightarrow> determineTrustStatus env c = Inl err \<Longrightarrow>
   fst (upsert_try env d) = Inl err"
  by (simp add: upsert_try_def io_simps)

lemma fst_upsert_fail_open:
  "fst (upsert_try env d) = Inl err \<Longrightarrow> fst (upsertUserWithTrustCheck env d) = Inr Trusted"
  by (simp add: upsertUserWithTrustCheck_def io_simps)

lemma handle_try_valid:
  assumes "ev_action event \<noteq> Delete"
    and "ev_record event = Some rec"
    and "fst (validateRecord env (ev_collection event) rec) = Inr (Success rec)"
    and "u = ''at://'' @ ev_did event @ ''/'' @ ev_collection event @ ''/'' @ ev_rkey event"
    and "ts = (if ev_action event = Create then upsertUserWithTrustCheck env (ev_did event)
               else io_return Trusted)"
    and "fst ts = Inr t"
    and "params = \<lparr> uri = u, rkey = ev_rkey event, did = ev_did event,
                     cid = (case ev_cid event of Some c \<Rightarrow> c | None \<Rightarrow> []),
                     record_data = rec, live = ev_live event, trustStatus = t \<rparr>"
  shows "snd (handle_try env event) =
           snd (validateRecord env (ev_collection event) rec) @ snd ts @
           snd (if ev_action event = Create
                then dispatchCreate env (COLLECTION_MAP (ev_collection event)) params
                else dispatchUpdate env (COLLECTION_MAP (ev_collection event)) params)"
proof -
  have sup: "isSupportedCollection (ev_collection event)"
    using assms(3) by (rule validateRecord_success_supported)
  show ?thesis
    using assms sup by (simp add: handle_try_def Let_def io_simps)
qed

text \<open>
  The whole outcome of the validator for a supported collection, from the answers of
  the serializer and of the schema.
\<close>

lemma fst_validateRecord_supported:
  "isSupportedCollection collection \<Longrightarrow>
   fst (validateRecord env collection rec) =
     (case stringify env rec of
        Inl err \<Rightarrow> Inl err
      | Inr None \<Rightarrow> Inl (TypeError ''Cannot read properties of undefined (reading length)'')
      | Inr (Some s) \<Rightarrow>
          if 65536 < length s then Inr (Failure ''Record exceeds maximum size of 65536 bytes'')
          else (case safe_parse env collection rec of
                  Inl err \<Rightarrow> Inl err
                | Inr success \<Rightarrow>
                    Inr (if success then Success rec
                         else Failure (''Validation failed for '' @ collection))))"
  by (auto simp: validateRecord_def MAX_RECORD_SIZE_def io_simps string_of_nat_65536
      split: sum.splits option.splits)

text \<open>The trust check of a user that the store already holds throws with its collaborators.\<close>

lemma upsert_try_stored_classify_fails:
  "select_users env d = Inr (user # rest) \<Longrightarrow> accountCreatedAt user = Some stored \<Longrightarrow>
   determineTrustStatus env (Some stored) = Inl err \<Longrightarrow> fst (upsert_try env d) = Inl err"
  by (simp add: upsert_try_def io_simps)

lemma upsert_try_legacy_resolve_fails:
  "select_users env d = Inr (user # rest) \<Longrightarrow> accountCreatedAt user = None \<Longrightarrow>
   resolveCreationDate env d = Inl err \<Longrightarrow> fst (upsert_try env d) = Inl err"
  by (simp add: upsert_try_def io_simps)

lemma upsert_try_legacy_update_fails:
  "select_users env d = Inr (user # rest) \<Longrightarrow> accountCreatedAt user = None \<Longrightarrow>
   resolveCreationDate env d = Inr (Some c) \<Longrightarrow> update_user env d c = Inl err \<Longrightarrow>
   fst (upsert_try env d) = Inl err"
  by (simp add: upsert_try_def io_simps)

section \<open>Where the dispatcher calls an indexer\<close>

lemma indexer_last_quiet: "\<forall>c. IndexerCall c \<notin> set (snd m) \<Longrightarrow> indexer_last env m"
  by (simp add: indexer_last_def)

lemma indexer_last_bind:
  assumes quiet: "\<forall>c. IndexerCall c \<notin> set (snd m)"
    and rest: "\<And>v. fst m = Inr v \<Longrightarrow> indexer_last env (f v)"
  shows "indexer_last env (io_bind m f)"
proof (cases "fst m")
  case (Inl err)
  then show ?thesis using quiet by (simp add: indexer_last_def io_simps)
next
  case (Inr v)
  have "indexer_last env (f v)" using rest Inr by simp
  then consider (none) "\<forall>c. IndexerCall c \<notin> set (snd (f v))"
    | (last) c pre where "snd (f v) = pre @ [IndexerCall c]" "\<forall>c'. IndexerCall c' \<notin> set pre"
        "case run_indexer env c of Inl err \<Rightarrow> fst (f v) = Inl err | Inr _ \<Rightarrow> \<exists>w. fst (f v) = Inr w"
    unfolding indexer_last_def by blast
  then show ?thesis
  proof cases
    case none
    then show ?thesis using quiet Inr by (simp add: indexer_last_def io_simps)
  next
    case last
    have "snd (io_bind m f) = (snd m @ pre) @ [IndexerCall c]"
      using Inr last(1) by (simp add: io_simps)
    moreover have "\<forall>c'. IndexerCall c' \<notin> set (snd m @ pre)"
      using quiet last(2) by simp
    moreover have "case run_indexer env c of Inl err \<Rightarrow> fst (io_bind m f) = Inl err
                   | Inr _ \<Rightarrow> \<exists>w. fst (io_bind m f) = Inr w"
      using Inr last(3) by (auto simp: io_simps split: sum.splits)
    ultimately show ?thesis unfolding indexer_last_def by blast
  qed
qed

lemma indexer_last_call:
  "indexer_last env (io_call (IndexerCall c) (run_indexer env c) :: ('r effect, unit) io)"
  unfolding indexer_last_def
  by (rule disjI2, rule exI [of _ c], rule exI [of _ "[]"]) (auto split: sum.splits)

lemma indexer_last_dispatchCreate: "indexer_last env (dispatchCreate env n p)"
  by (simp add: dispatchCreate_def indexer_last_call indexer_last_quiet)

lemma indexer_last_dispatchUpdate: "indexer_last env (dispatchUpdate env n p)"
  by (simp add: dispatchUpdate_def indexer_last_call indexer_last_quiet)

lemma indexer_last_return: "indexer_last env (io_return v)"
  by (simp add: indexer_last_quiet)

lemma indexer_last_dispatchDelete: "indexer_last env (dispatchDelete env n p)"
  unfolding dispatchDelete_def Let_def
  by (auto intro!: indexer_last_bind indexer_last_call indexer_last_return split: if_splits)

lemma upsert_try_quiet: "IndexerCall c \<notin> set (snd (upsert_try env d))"
  by (auto simp: upsert_try_def io_simps optional_toISOString_def
      split: sum.splits list.splits option.splits if_splits date.splits)

lemma upsertUserWithTrustCheck_quiet: "IndexerCall c \<notin> set (snd (upsertUserWithTrustCheck env d))"
  using upsert_try_quiet [of c env d]
  by (auto simp: upsertUserWithTrustCheck_def io_simps split: sum.splits)

lemma validateRecord_quiet: "IndexerCall c \<notin> set (snd (validateRecord env collection rec))"
  using snd_validateRecord_cases [of env collection rec] by auto

lemma indexer_last_valid:
  "indexer_last env
     (io_bind (if act = Create then upsertUserWithTrustCheck env d else io_return Trusted)
        (\<lambda>ts. if act = Create then dispatchCreate env n (p ts) else dispatchUpdate env n (p ts)))"
  by (rule indexer_last_bind)
     (simp_all add: upsertUserWithTrustCheck_quiet indexer_last_dispatchCreate
        indexer_last_dispatchUpdate)

lemma indexer_last_handle_try: "indexer_last env (handle_try env event)"
proof (cases "isSupportedCollection (ev_collection event)")
  case False
  then show ?thesis by (simp add: handle_try_def indexer_last_quiet)
next
  case sup: True
  show ?thesis
  proof (cases "ev_action event = Delete")
    case True
    then show ?thesis
      using sup by (simp add: handle_try_def Let_def indexer_last_dispatchDelete)
  next
    case nd: False
    show ?thesis
    proof (cases "ev_record event")
      case None
      then show ?thesis
        using sup nd by (simp add: handle_try_def Let_def indexer_last_quiet)
    next
      case (Some rec)
      have "indexer_last env
              (io_bind (validateRecord env (ev_collection event) rec) (\<lambda>validation.
                 case validation of
                   Failure msg \<Rightarrow>
                     logger LDebug [(''collection'', LStr (ev_collection event)),
                                    (''did'', LStr (ev_did event)),
                                    (''rkey'', LStr (ev_rkey event)), (''error'', LStr msg)]
                       ''Record validation failed''
                 | Success _ \<Rightarrow>
                     io_bind (if ev_action event = Create
                              then upsertUserWithTrustCheck env (ev_did event)
                              else io_return Trusted) (\<lambda>ts.
                       if ev_action event = Create
                       then dispatchCreate env (COLLECTION_MAP (ev_collection event))
                              \<lparr> uri = ''at://'' @ ev_did event @ ''/'' @ ev_collection event @ ''/'' @ ev_rkey event,
                                rkey = ev_rkey event, did = ev_did event,
                                cid = (case ev_cid event of Some c \<Rightarrow> c | None \<Rightarrow> []),
                                record_data = rec, live = ev_live event, trustStatus = ts \<rparr>
                       else dispatchUpdate env (COLLECTION_MAP (ev_collection event))
                              \<lparr> uri = ''at://'' @ ev_did event @ ''/'' @ ev_collection event @ ''/'' @ ev_rkey event,
                                rkey = ev_rkey event, did = ev_did event,
                                cid = (case ev_cid event of Some c \<Rightarrow> c | None \<Rightarrow> []),
                                record_data = rec, live = ev_live event, trustStatus = ts \<rparr>)))"
      proof (rule indexer_last_bind)
        show "\<forall>c. IndexerCall c \<notin> set (snd (validateRecord env (ev_collection event) rec))"
          by (simp add: validateRecord_quiet)
      next
        fix v
        show "indexer_last env
                (case v of
                   Failure msg \<Rightarrow>
                     logger LDebug [(''collection'', LStr (ev_collection event)),
                                    (''did'', LStr (ev_did event)),
                                    (''rkey'', LStr (ev_rkey event)), (''error'', LStr msg)]
                       ''Record validation failed''
                 | Success _ \<Rightarrow>
                     io_bind (if ev_action event = Create
                              then upsertUserWithTrustCheck env (ev_did event)
                              else io_return Trusted) (\<lambda>ts.
                       if ev_action event = Create
                       then dispatchCreate env (COLLECTION_MAP (ev_collection event))
                              \<lparr> uri = ''at://'' @ ev_did event @ ''/'' @ ev_collection event @ ''/'' @ ev_rkey event,
                                rkey = ev_rkey event, did = ev_did event,
                                cid = (case ev_cid event of Some c \<Rightarrow> c | None \<Rightarrow> []),
                                record_data = rec, live = ev_live event, trustStatus = ts \<rparr>
                       else dispatchUpdate env (COLLECTION_MAP (ev_collection event))
                              \<lparr> uri = ''at://'' @ ev_did event @ ''/'' @ ev_collection event @ ''/'' @ ev_rkey event,
                                rkey = ev_rkey event, did = ev_did event,
                                cid = (case ev_cid event of Some c \<Rightarrow> c | None \<Rightarrow> []),
                                record_data = rec, live = ev_live event, trustStatus = ts \<rparr>))"
          by (cases v) (simp_all add: indexer_last_valid indexer_last_quiet)
      qed
      then show ?thesis
        unfolding handle_try_def Let_def
        using sup nd Some
        by (simp only: not_True_eq_False if_False if_True option.case simp_thms)
    qed
  qed
qed

lemma handle_try_indexer_call:
  assumes "IndexerCall c \<in> set (snd (handle_try env event))"
  shows "\<exists>pre. snd (handle_try env event) = pre @ [IndexerCall c]
           \<and> (case run_indexer env c of
                 Inl err \<Rightarrow> fst (handle_try env event) = Inl err
               | Inr _ \<Rightarrow> fst (handle_try env event) = Inr ())"
proof -
  obtain c0 pre where s: "snd (handle_try env event) = pre @ [IndexerCall c0]"
    and q: "\<forall>c'. IndexerCall c' \<notin> set pre"
    and r: "case run_indexer env c0 of Inl err \<Rightarrow> fst (handle_try env event) = Inl err
            | Inr _ \<Rightarrow> \<exists>v. fst (handle_try env event) = Inr v"
    using indexer_last_handle_try [of env event] assms unfolding indexer_last_def by blast
  have "c = c0" using assms s q by auto
  then show ?thesis using s r by (auto split: sum.splits)
qed

lemma handle_indexer_throws:
  assumes "IndexerCall c \<in> set (snd (handle env event))" and "run_indexer env c = Inl err"
  shows "\<exists>pre. handle env event = (Inr (), pre @ [IndexerCall c, boundary_log event err])"
proof -
  have "IndexerCall c \<in> set (snd (handle_try env event))"
    using assms(1) by (auto simp: handle_def io_simps split: sum.splits)
  then obtain pre where "snd (handle_try env event) = pre @ [IndexerCall c]"
    and "fst (handle_try env event) = Inl err"
    using handle_try_indexer_call [of c env event] assms(2) by auto
  then have "handle env event = (Inr (), pre @ [IndexerCall c, boundary_log event err])"
    by (simp add: handle_def io_simps prod_eq_iff boundary_log_def)
  then show ?thesis by blast
qed

lemma validateRecord_throw_supported:
  "fst (validateRecord env collection rec) = Inl err \<Longrightarrow> isSupportedCollection collection"
  by (auto simp: validateRecord_def split: if_splits)

lemma handle_validation_throws:
  assumes "ev_action event \<noteq> Delete" and "ev_record event = Some rec"
    and "fst (validateRecord env (ev_collection event) rec) = Inl err"
  shows "handle env event =
           (Inr (), snd (validateRecord env (ev_collection event) rec) @ [boundary_log event err])"
  using assms validateRecord_throw_supported [OF assms(3)]
  by (simp add: handle_def handle_try_def Let_def io_simps prod_eq_iff boundary_log_def)

lemma handle_lookup_throws_reply:
  assumes "ev_action event = Delete"
    and "ev_collection event = ''forum.atgora.topic.reply''"
    and "u = ''at://'' @ ev_did event @ ''/'' @ ev_collection event @ ''/'' @ ev_rkey event"
    and "select_replies env u = Inl err"
  shows "handle env event = (Inr (), [SelectReplies u, boundary_log event err])"
proof -
  have sup: "isSupportedCollection (ev_collection event)"
    using assms(2) by (simp add: isSupportedCollection_iff)
  have "handle_try env event =
          dispatchDelete env (Some ''reply'') \<lparr> uri = u, rkey = ev_rkey event, did = ev_did event \<rparr>"
    using assms(2,3) by (simp add: handle_try_delete [OF assms(1) sup] COLLECTION_MAP_def)
  then show ?thesis
    using assms(4)
    by (simp add: handle_def dispatchDelete_def io_simps prod_eq_iff boundary_log_def)
qed

lemma handle_lookup_throws_reaction:
  assumes "ev_action event = Delete"
    and "ev_collection event = ''forum.atgora.interaction.reaction''"
    and "u = ''at://'' @ ev_did event @ ''/'' @ ev_collection event @ ''/'' @ ev_rkey event"
    and "select_reactions env u = Inl err"
  shows "handle env event = (Inr (), [SelectReactions u, boundary_log event err])"
proof -
  have sup: "isSupportedCollection (ev_collection event)"
    using assms(2) by (simp add: isSupportedCollection_iff)
  have "handle_try env event =
          dispatchDelete env (Some ''reaction'') \<lparr> uri = u, rkey = ev_rkey event, did = ev_did event \<rparr>"
    using assms(2,3) by (simp add: handle_try_delete [OF assms(1) sup] COLLECTION_MAP_def)
  then show ?thesis
    using assms(4)
    by (simp add: handle_def dispatchDelete_def io_simps prod_eq_iff boundary_log_def)
qed

lemma upsertUserWithTrustCheck_total: "\<exists>t. fst (upsertUserWithTrustCheck env d) = Inr t"
  by (simp add: upsertUserWithTrustCheck_def io_simps split: sum.splits)

lemma snd_upsert_caught:
  "fst (upsert_try env d) = Inl err \<Longrightarrow>
   snd (upsertUserWithTrustCheck env d) = snd (upsert_try env d) @ [trust_check_log d err]"
  by (simp add: upsertUserWithTrustCheck_def io_simps trust_check_log_def)

lemma handle_trust_check_throws:
  assumes create: "ev_action event = Create"
    and rec: "ev_record event = Some rec"
    and valid: "fst (validateRecord env (ev_collection event) rec) = Inr (Success rec)"
    and fails: "fst (upsert_try env (ev_did event)) = Inl err"
    and call: "call = HandleCreate
            (if ev_collection event = ''forum.atgora.topic.post'' then Topic
             else if ev_collection event = ''forum.atgora.topic.reply'' then Reply
             else Reaction)
            \<lparr> uri = ''at://'' @ ev_did event @ ''/'' @ ev_collection event @ ''/'' @ ev_rkey event,
              rkey = ev_rkey event, did = ev_did event,
              cid = (case ev_cid event of Some c \<Rightarrow> c | None \<Rightarrow> []),
              record_data = rec, live = ev_live event, trustStatus = Trusted \<rparr>"
  shows "handle env event =
           (Inr (),
            snd (validateRecord env (ev_collection event) rec) @ snd (upsert_try env (ev_did event)) @
            [trust_check_log (ev_did event) err, IndexerCall call] @
            (case run_indexer env call of Inl err' \<Rightarrow> [boundary_log event err'] | Inr _ \<Rightarrow> []))"
proof -
  have t: "fst (upsertUserWithTrustCheck env (ev_did event)) = Inr Trusted"
    using fails by (rule fst_upsert_fail_open)
  have sup: "isSupportedCollection (ev_collection event)"
    using valid by (rule validateRecord_success_supported)
  have d: "dispatchCreate env (COLLECTION_MAP (ev_collection event))
             \<lparr> uri = ''at://'' @ ev_did event @ ''/'' @ ev_collection event @ ''/'' @ ev_rkey event,
               rkey = ev_rkey event, did = ev_did event,
               cid = (case ev_cid event of Some c \<Rightarrow> c | None \<Rightarrow> []),
               record_data = rec, live = ev_live event, trustStatus = Trusted \<rparr>
           = (run_indexer env call, [IndexerCall call])"
    using sup call
    by (auto simp: isSupportedCollection_iff dispatchCreate_def COLLECTION_MAP_def io_call_def)
  have "handle_try env event =
          (run_indexer env call,
           snd (validateRecord env (ev_collection event) rec) @ snd (upsert_try env (ev_did event)) @
           [trust_check_log (ev_did event) err, IndexerCall call])"
    using create rec valid sup t snd_upsert_caught [OF fails] d
    by (simp add: handle_try_def Let_def io_simps prod_eq_iff)
  then show ?thesis
    by (simp add: handle_def io_simps prod_eq_iff boundary_log_def split: sum.splits)
qed

section \<open>The clamp, unfolded\<close>

lemmas clamp_defs =
  clampCreatedAt_def new_Date_def time_clip_def getTime_def number_add_def number_sub_def
  date_gt_def date_lt_def MAX_FUTURE_MS_def MAX_PAST_MS_def valid_date_def spec_in_range_def Let_def

section \<open>Dispatcher: containment of exceptions\<close>

text \<open>
  C1, as amended. For every event and every behaviour of the collaborators, \<open>handle\<close>
  returns normally. A value thrown in validation, in the compensating lookup of a delete
  or by an indexer is caught at the one outer boundary, logged there at error level with
  the event's id and collection, and nothing more is done for the event: the line is the
  last of the trace, and after a throw of the validation or of the lookup no indexer has
  been called. A value thrown in the trust check of a create (identity upsert or
  account-age resolution) does not reach that boundary: it is caught inside the trust
  check, logged with the error and the identity, and the handling goes on to call the
  create entry point of the indexer with the trust status \<open>trusted\<close>.
\<close>

theorem handle_containment:
  assumes u: "u = ''at://'' @ ev_did event @ ''/'' @ ev_collection event @ ''/'' @ ev_rkey event"
  shows "fst (handle env event) = Inr ()
       \<and> (\<forall>rec err. ev_action event \<noteq> Delete \<and> ev_record event = Some rec
              \<and> fst (validateRecord env (ev_collection event) rec) = Inl err \<longrightarrow>
            handle env event =
              (Inr (), snd (validateRecord env (ev_collection event) rec) @ [boundary_log event err]))
       \<and> (\<forall>err. ev_action event = Delete \<and> ev_collection event = ''forum.atgora.topic.reply''
              \<and> select_replies env u = Inl err \<longrightarrow>
            handle env event = (Inr (), [SelectReplies u, boundary_log event err]))
       \<and> (\<forall>err. ev_action event = Delete \<and> ev_collection event = ''forum.atgora.interaction.reaction''
              \<and> select_reactions env u = Inl err \<longrightarrow>
            handle env event = (Inr (), [SelectReactions u, boundary_log event err]))
       \<and> (\<forall>c err. IndexerCall c \<in> set (snd (handle env event)) \<and> run_indexer env c = Inl err \<longrightarrow>
            (\<exists>pre. handle env event = (Inr (), pre @ [IndexerCall c, boundary_log event err])))
       \<and> (\<forall>rec err. ev_action event = Create \<and> ev_record event = Some rec
              \<and> fst (validateRecord env (ev_collection event) rec) = Inr (Success rec)
              \<and> fst (upsert_try env (ev_did event)) = Inl err \<longrightarrow>
            handle env event =
              (Inr (),
               snd (validateRecord env (ev_collection event) rec) @ snd (upsert_try env (ev_did event)) @
               [trust_check_log (ev_did event) err,
                IndexerCall (HandleCreate
                  (if ev_collection event = ''forum.atgora.topic.post'' then Topic
                   else if ev_collection event = ''forum.atgora.topic.reply'' then Reply
                   else Reaction)
                  \<lparr> uri = u, rkey = ev_rkey event, did = ev_did event,
                    cid = (case ev_cid event of Some c \<Rightarrow> c | None \<Rightarrow> []),
                    record_data = rec, live = ev_live event, trustStatus = Trusted \<rparr>)] @
               (case run_indexer env (HandleCreate
                  (if ev_collection event = ''forum.atgora.topic.post'' then Topic
                   else if ev_collection event = ''forum.atgora.topic.reply'' then Reply
                   else Reaction)
                  \<lparr> uri = u, rkey = ev_rkey event, did = ev_did event,
                    cid = (case ev_cid event of Some c \<Rightarrow> c | None \<Rightarrow> []),
                    record_data = rec, live = ev_live event, trustStatus = Trusted \<rparr>) of
                  Inl err' \<Rightarrow> [boundary_log event err']
                | Inr _ \<Rightarrow> [])))
       \<and> (\<forall>err. fst (handle_try env event) = Inl err \<longrightarrow>
            snd (handle env event) = snd (handle_try env event) @ [boundary_log event err])
       \<and> (fst (handle_try env event) = Inr () \<longrightarrow> snd (handle env event) = snd (handle_try env event))"
proof (intro conjI allI impI)
  show "fst (handle env event) = Inr ()"
    by (rule fst_handle)
next
  fix rec err
  assume "ev_action event \<noteq> Delete \<and> ev_record event = Some rec
          \<and> fst (validateRecord env (ev_collection event) rec) = Inl err"
  then show "handle env event =
      (Inr (), snd (validateRecord env (ev_collection event) rec) @ [boundary_log event err])"
    using handle_validation_throws [of event rec env err] by simp
next
  fix err
  assume "ev_action event = Delete \<and> ev_collection event = ''forum.atgora.topic.reply''
          \<and> select_replies env u = Inl err"
  then show "handle env event = (Inr (), [SelectReplies u, boundary_log event err])"
    using handle_lookup_throws_reply [OF _ _ u, of env err] by simp
next
  fix err
  assume "ev_action event = Delete \<and> ev_collection event = ''forum.atgora.interaction.reaction''
          \<and> select_reactions env u = Inl err"
  then show "handle env event = (Inr (), [SelectReactions u, boundary_log event err])"
    using handle_lookup_throws_reaction [OF _ _ u, of env err] by simp
next
  fix c err
  assume "IndexerCall c \<in> set (snd (handle env event)) \<and> run_indexer env c = Inl err"
  then show "\<exists>pre. handle env event = (Inr (), pre @ [IndexerCall c, boundary_log event err])"
    using handle_indexer_throws [of c env event err] by simp
next
  fix rec err
  assume a: "ev_action event = Create \<and> ev_record event = Some rec
          \<and> fst (validateRecord env (ev_collection event) rec) = Inr (Success rec)
          \<and> fst (upsert_try env (ev_did event)) = Inl err"
  show "handle env event =
              (Inr (),
               snd (validateRecord env (ev_collection event) rec) @ snd (upsert_try env (ev_did event)) @
               [trust_check_log (ev_did event) err,
                IndexerCall (HandleCreate
                  (if ev_collection event = ''forum.atgora.topic.post'' then Topic
                   else if ev_collection event = ''forum.atgora.topic.reply'' then Reply
                   else Reaction)
                  \<lparr> uri = u, rkey = ev_rkey event, did = ev_did event,
                    cid = (case ev_cid event of Some c \<Rightarrow> c | None \<Rightarrow> []),
                    record_data = rec, live = ev_live event, trustStatus = Trusted \<rparr>)] @
               (case run_indexer env (HandleCreate
                  (if ev_collection event = ''forum.atgora.topic.post'' then Topic
                   else if ev_collection event = ''forum.atgora.topic.reply'' then Reply
                   else Reaction)
                  \<lparr> uri = u, rkey = ev_rkey event, did = ev_did event,
                    cid = (case ev_cid event of Some c \<Rightarrow> c | None \<Rightarrow> []),
                    record_data = rec, live = ev_live event, trustStatus = Trusted \<rparr>) of
                  Inl err' \<Rightarrow> [boundary_log event err']
                | Inr _ \<Rightarrow> []))"
    unfolding u
    using a by (intro handle_trust_check_throws [where err = err]) simp_all
next
  fix err
  assume "fst (handle_try env event) = Inl err"
  then show "snd (handle env event) = snd (handle_try env event) @ [boundary_log event err]"
    by (simp add: handle_def io_simps boundary_log_def)
next
  assume "fst (handle_try env event) = Inr ()"
  then show "snd (handle env event) = snd (handle_try env event)"
    by (simp add: handle_def io_simps)
qed

text \<open>
  An update of a topic whose indexer throws, an update whose serialization throws, and
  the delete of a reply whose lookup throws: each throw is the last thing before the line
  of the boundary, and \<open>handle\<close> returns.
\<close>

theorem handle_containment_witness:
  "handle (example_env \<lparr> run_indexer := (\<lambda>_. Inl (Error ''deadlock detected'')) \<rparr>)
        (example_event ''forum.atgora.topic.post'' Update) =
       (Inr (),
        [SafeParse ''forum.atgora.topic.post'' ''doc'',
         IndexerCall (HandleUpdate Topic
           \<lparr> uri = ''at://did:plc:alice/forum.atgora.topic.post/3kabc'', rkey = ''3kabc'',
             did = ''did:plc:alice'', cid = ''bafy'', record_data = ''doc'', live = True,
             trustStatus = Trusted \<rparr>),
         boundary_log (example_event ''forum.atgora.topic.post'' Update) (Error ''deadlock detected'')])
   \<and> handle (example_env \<lparr> stringify := (\<lambda>_. Inl (TypeError ''Do not know how to serialize a BigInt'')) \<rparr>)
        (example_event ''forum.atgora.topic.post'' Update) =
       (Inr (),
        [boundary_log (example_event ''forum.atgora.topic.post'' Update)
           (TypeError ''Do not know how to serialize a BigInt'')])
   \<and> handle (example_env \<lparr> select_replies := (\<lambda>_. Inl (Error ''connection terminated'')) \<rparr>)
        (example_event ''forum.atgora.topic.reply'' Delete) =
       (Inr (),
        [SelectReplies ''at://did:plc:alice/forum.atgora.topic.reply/3kabc'',
         boundary_log (example_event ''forum.atgora.topic.reply'' Delete) (Error ''connection terminated'')])"
  using handle_containment [where event = "example_event ''forum.atgora.topic.post'' Update"
      and env = "example_env \<lparr> run_indexer := (\<lambda>_. Inl (Error ''deadlock detected'')) \<rparr>"
      and u = "''at://did:plc:alice/forum.atgora.topic.post/3kabc''"]
    handle_containment [where event = "example_event ''forum.atgora.topic.post'' Update"
      and env = "example_env \<lparr> stringify := (\<lambda>_. Inl (TypeError ''Do not know how to serialize a BigInt'')) \<rparr>"
      and u = "''at://did:plc:alice/forum.atgora.topic.post/3kabc''"]
    handle_containment [where event = "example_event ''forum.atgora.topic.reply'' Delete"
      and env = "example_env \<lparr> select_replies := (\<lambda>_. Inl (Error ''connection terminated'')) \<rparr>"
      and u = "''at://did:plc:alice/forum.atgora.topic.reply/3kabc''"]
  by (simp add: handler_defs isSupportedCollection_iff io_simps prod_eq_iff boundary_log_def)

text \<open>
  C1 as stated fails for the trust check: when the lookup of the user throws during the
  creation of a reply, the value is not logged at the outer boundary and the event is not
  dropped; the trust check logs it with the identity and the reply is indexed.
\<close>

theorem handle_trust_check_counterexample:
  "fst (upsert_try (example_env \<lparr> select_users := (\<lambda>_. Inl (Error ''connection terminated'')) \<rparr>)
          ''did:plc:alice'') = Inl (Error ''connection terminated'')
   \<and> handle (example_env \<lparr> select_users := (\<lambda>_. Inl (Error ''connection terminated'')) \<rparr>)
        (example_event ''forum.atgora.topic.reply'' Create) =
     (Inr (),
      [SafeParse ''forum.atgora.topic.reply'' ''doc'',
       SelectUsers ''did:plc:alice'',
       trust_check_log ''did:plc:alice'' (Error ''connection terminated''),
       IndexerCall (HandleCreate Reply
         \<lparr> uri = ''at://did:plc:alice/forum.atgora.topic.reply/3kabc'', rkey = ''3kabc'',
           did = ''did:plc:alice'', cid = ''bafy'', record_data = ''doc'', live = True,
           trustStatus = Trusted \<rparr>)])
   \<and> boundary_log (example_event ''forum.atgora.topic.reply'' Create) (Error ''connection terminated'')
       \<notin> set (snd (handle (example_env \<lparr> select_users := (\<lambda>_. Inl (Error ''connection terminated'')) \<rparr>)
                        (example_event ''forum.atgora.topic.reply'' Create)))"
  by (simp add: handler_defs isSupportedCollection_iff io_simps prod_eq_iff boundary_log_def
      trust_check_log_def)

section \<open>Identity verifier: results\<close>

text \<open>
  C2. For every identity and every behaviour of the cache (hit, miss, failing read,
  failing write) and of the directory (success, error status, network failure, timeout),
  \<open>verify\<close> does not throw, and its result is one of the two shapes: active, or inactive
  with a reason.
\<close>

theorem verify_never_throws:
  "fst (verify env d) = Inr Active \<or> (\<exists>r. fst (verify env d) = Inr (Inactive r))"
proof -
  obtain c where c: "fst (verify_cached env d) = Inr c"
    using verify_cached_total by blast
  obtain v where v: "fst (verify_resolve env d) = Inr v"
    using verify_resolve_total by blast
  have "\<exists>r. fst (verify env d) = Inr r"
    using c v by (auto simp: verify_def io_simps split: option.splits)
  then obtain r where r: "fst (verify env d) = Inr r" by blast
  show ?thesis by (cases r) (simp_all add: r)
qed

text \<open>The cache read fails and the directory times out: the result is inactive.\<close>

theorem verify_never_throws_witness:
  "verify (example_verifier_env \<lparr> cache_get := (\<lambda>_. Inl (Error ''connection refused'')),
                                  fetch := (\<lambda>_. Inl (Error ''The operation was aborted due to timeout'')) \<rparr>)
     ''did:plc:alice'' =
   (Inr (Inactive ''DID document resolution failed''),
    [CacheGet ''barazo:did-doc:did:plc:alice'',
     VLog (LogEntry LWarn [(''err'', LErr (Error ''connection refused'')), (''did'', LStr ''did:plc:alice'')]
             ''DID document cache read failed''),
     Fetch ''https://plc.directory/did:plc:alice'' 5000,
     VLog (LogEntry LError
             [(''err'', LErr (Error ''The operation was aborted due to timeout'')),
              (''did'', LStr ''did:plc:alice'')]
             ''DID document resolution failed'')])"
  using verify_never_throws [of "example_verifier_env \<lparr> cache_get := (\<lambda>_. Inl (Error ''connection refused'')),
                                  fetch := (\<lambda>_. Inl (Error ''The operation was aborted due to timeout'')) \<rparr>"
      "''did:plc:alice''"]
  by (simp add: verifier_defs io_simps prod_eq_iff)

text \<open>
  C3, as amended. When the verifier has no usable cache entry for an identity of the
  directory scheme (the cache answers nothing, the read throws, or the stored text does
  not parse), the result follows the directory's answer: a success response gives
  active; status 410 gives inactive with the reason \<open>DID has been tombstoned\<close>, and that
  verdict is written to the cache under the identity's key with the hard TTL of 7200
  seconds; status 404 gives inactive with the reason \<open>DID not found in PLC directory\<close>;
  any other status, and a network failure or timeout, gives inactive with the reason
  \<open>DID document resolution failed\<close>.
\<close>

theorem verify_cold_cache:
  assumes plc: "prefix ''did:plc:'' d"
    and cold: "cache_unusable env d"
  shows "(\<forall>resp. fetch env (PLC_DIRECTORY_URL @ ''/'' @ d) = Inr resp \<and> ok resp \<longrightarrow>
            fst (verify env d) = Inr Active)
       \<and> (\<forall>resp. fetch env (PLC_DIRECTORY_URL @ ''/'' @ d) = Inr resp \<and> \<not> ok resp \<and> status resp = 410 \<longrightarrow>
            fst (verify env d) = Inr (Inactive ''DID has been tombstoned'')
            \<and> (\<exists>ws. Detached
                  (CacheSet (DID_DOC_CACHE_PREFIX @ d)
                     (json_stringify env \<lparr> active = False, reason = Some ''DID has been tombstoned'',
                                            resolvedAt = date_now_cached env \<rparr>)
                     7200 # ws) \<in> set (snd (verify env d))))
       \<and> (\<forall>resp. fetch env (PLC_DIRECTORY_URL @ ''/'' @ d) = Inr resp \<and> \<not> ok resp \<and> status resp = 404 \<longrightarrow>
            fst (verify env d) = Inr (Inactive ''DID not found in PLC directory''))
       \<and> (\<forall>resp. fetch env (PLC_DIRECTORY_URL @ ''/'' @ d) = Inr resp \<and> \<not> ok resp
              \<and> status resp \<noteq> 410 \<and> status resp \<noteq> 404 \<longrightarrow>
            fst (verify env d) = Inr (Inactive ''DID document resolution failed''))
       \<and> (\<forall>err. fetch env (PLC_DIRECTORY_URL @ ''/'' @ d) = Inl err \<longrightarrow>
            fst (verify env d) = Inr (Inactive ''DID document resolution failed''))"
proof -
  have res: "fst (verify env d) = fst (verify_resolve env d)"
    using plc cold by (rule fst_verify_unusable)
  have tomb: "\<exists>ws. Detached
                  (CacheSet (DID_DOC_CACHE_PREFIX @ d)
                     (json_stringify env \<lparr> active = False, reason = Some ''DID has been tombstoned'',
                                            resolvedAt = date_now_cached env \<rparr>)
                     7200 # ws) \<in> set (snd (verify env d))"
    if f: "fetch env (PLC_DIRECTORY_URL @ ''/'' @ d) = Inr resp" and nok: "\<not> ok resp"
      and st: "status resp = 410" for resp
  proof -
    have r: "fst (resolveFromPlc env d) = Inr (Inactive ''DID has been tombstoned'')"
      using f nok st by (simp add: fst_resolveFromPlc)
    obtain ws where ws: "snd (io_catch (cacheResult env d (Inactive ''DID has been tombstoned''))
        (\<lambda>err. verifier_logger LWarn [(''err'', LErr err), (''did'', LStr d)]
                  ''Failed to cache DID verification result'')) =
       CacheSet (DID_DOC_CACHE_PREFIX @ d)
         (json_stringify env \<lparr> active = False, reason = Some ''DID has been tombstoned'',
                                resolvedAt = date_now_cached env \<rparr>)
         DID_DOC_HARD_TTL # ws"
      using snd_cacheResult_catch [of env d "Inactive ''DID has been tombstoned''"] by auto
    show ?thesis
      using snd_verify_unusable [OF plc cold] snd_verify_resolve_ok [OF r] ws
      by (auto simp: DID_DOC_HARD_TTL_def)
  qed
  show ?thesis
    using tomb by (auto simp: res fst_verify_resolve fst_resolveFromPlc)
qed

text \<open>A cold cache and a directory that answers 410: the verdict and the cache write.\<close>

theorem verify_cold_cache_witness:
  "prefix ''did:plc:'' ''did:plc:gone''
   \<and> cache_unusable (example_status_env 410) ''did:plc:gone''
   \<and> fst (verify (example_status_env 410) ''did:plc:gone'') = Inr (Inactive ''DID has been tombstoned'')
   \<and> (\<exists>ws. Detached (CacheSet ''barazo:did-doc:did:plc:gone'' ''inactive'' 7200 # ws)
         \<in> set (snd (verify (example_status_env 410) ''did:plc:gone'')))"
proof -
  have p: "prefix ''did:plc:'' ''did:plc:gone''" by simp
  have c: "cache_unusable (example_status_env 410) ''did:plc:gone''"
    by (simp add: cache_unusable_def example_status_env_def example_verifier_env_def)
  show ?thesis
    using p c verify_cold_cache [OF p c]
    by (simp add: example_status_env_def example_verifier_env_def DID_DOC_CACHE_PREFIX_def)
qed

text \<open>
  C3 as stated fails: with a cold cache, the reasons returned for status 410, for status
  404 and for an unexpected status are not \<open>tombstoned\<close>, \<open>not found\<close> and
  \<open>resolution failed\<close>.
\<close>

theorem verify_cold_cache_reasons_counterexample:
  "cache_unusable (example_status_env 410) ''did:plc:gone''
   \<and> fst (verify (example_status_env 410) ''did:plc:gone'') \<noteq> Inr (Inactive ''tombstoned'')
   \<and> cache_unusable (example_status_env 404) ''did:plc:gone''
   \<and> fst (verify (example_status_env 404) ''did:plc:gone'') \<noteq> Inr (Inactive ''not found'')
   \<and> cache_unusable (example_status_env 500) ''did:plc:gone''
   \<and> fst (verify (example_status_env 500) ''did:plc:gone'') \<noteq> Inr (Inactive ''resolution failed'')"
  by (simp add: verifier_defs io_simps)

text \<open>
  C5. For every identity of the directory scheme whose cache entry is older than the
  soft TTL of one hour and at most as old as the hard TTL of two hours, \<open>verify\<close>
  returns the cached verdict: active, or inactive with the cached reason (the reason
  \<open>DID is not active\<close> when the entry has none). The verdict is the same whatever the
  directory answers to the background refresh and whatever the cache write does; the
  refresh is a detached task that starts with one request to the directory.
\<close>

theorem verify_stale_hit:
  assumes "prefix ''did:plc:'' d"
    and "cache_get env (DID_DOC_CACHE_PREFIX @ d) = Inr (Some raw)"
    and "json_parse env raw = Inr entry"
    and "3600000 < date_now env - resolvedAt entry"
    and "date_now env - resolvedAt entry \<le> 7200000"
  shows "fst (verify env d) =
           Inr (if active entry then Active
                else Inactive (case reason entry of Some r \<Rightarrow> r | None \<Rightarrow> ''DID is not active''))
       \<and> fst (verify (env \<lparr> fetch := f, cache_set := s, date_now_cached := n \<rparr>) d) = fst (verify env d)
       \<and> (\<exists>bg. snd (verify env d) =
             [CacheGet (DID_DOC_CACHE_PREFIX @ d),
              Detached (Fetch (PLC_DIRECTORY_URL @ ''/'' @ d) 5000 # bg)])"
  using assms
  by (simp add: verify_def verify_cached_def backgroundRefresh_def resolveFromPlc_def
      DID_DOC_SOFT_TTL_def PLC_FETCH_TIMEOUT_def Let_def io_simps split: sum.splits)

text \<open>
  An entry 70 minutes old, with a directory that cannot be reached and with one that
  answers 200: the cached verdict both times.
\<close>

theorem verify_stale_hit_witness:
  "fst (verify (example_cached_env 4200000) ''did:plc:alice'') = Inr (Inactive ''DID has been tombstoned'')
   \<and> fst (verify (example_cached_env 4200000
                   \<lparr> fetch := (\<lambda>_. Inr \<lparr> ok = True, status = 200 \<rparr>),
                     cache_set := (\<lambda>_ _ _. Inl (Error ''connection refused'')),
                     date_now_cached := 1771502400999 \<rparr>) ''did:plc:alice'')
       = Inr (Inactive ''DID has been tombstoned'')
   \<and> snd (verify (example_cached_env 4200000) ''did:plc:alice'') =
       [CacheGet ''barazo:did-doc:did:plc:alice'',
        Detached
          [Fetch ''https://plc.directory/did:plc:alice'' 5000,
           VLog (LogEntry LWarn [(''err'', LErr (Error ''fetch failed'')), (''did'', LStr ''did:plc:alice'')]
                   ''Background DID document refresh failed'')]]"
  using verify_stale_hit [where d = "''did:plc:alice''" and env = "example_cached_env 4200000"
      and raw = "''cached''"
      and entry = "\<lparr> active = False, reason = Some ''DID has been tombstoned'',
                     resolvedAt = 1771502400000 - 4200000 \<rparr>"
      and f = "\<lambda>_. Inr \<lparr> ok = True, status = 200 \<rparr>"
      and s = "\<lambda>_ _ _. Inl (Error ''connection refused'')" and n = 1771502400999]
  by (simp add: verifier_defs io_simps)

text \<open>
  C6. For every identity of the directory scheme whose cache entry is at most as old as
  the soft TTL of one hour (an entry exactly one hour old included), \<open>verify\<close> returns
  the cached verdict, active or inactive with the cached reason (the reason
  \<open>DID is not active\<close> when the entry has none), and the only call it makes is the cache
  read: no request to the directory and no background refresh.
\<close>

theorem verify_fresh_hit:
  assumes "prefix ''did:plc:'' d"
    and "cache_get env (DID_DOC_CACHE_PREFIX @ d) = Inr (Some raw)"
    and "json_parse env raw = Inr entry"
    and "date_now env - resolvedAt entry \<le> 3600000"
  shows "fst (verify env d) =
           Inr (if active entry then Active
                else Inactive (case reason entry of Some r \<Rightarrow> r | None \<Rightarrow> ''DID is not active''))
       \<and> snd (verify env d) = [CacheGet (DID_DOC_CACHE_PREFIX @ d)]"
  using assms
  by (simp add: verify_def verify_cached_def DID_DOC_SOFT_TTL_def Let_def io_simps)

text \<open>An entry 30 minutes old and an entry exactly one hour old.\<close>

theorem verify_fresh_hit_witness:
  "verify (example_cached_env 1800000) ''did:plc:alice'' =
     (Inr (Inactive ''DID has been tombstoned''), [CacheGet ''barazo:did-doc:did:plc:alice''])
   \<and> verify (example_cached_env 3600000) ''did:plc:alice'' =
     (Inr (Inactive ''DID has been tombstoned''), [CacheGet ''barazo:did-doc:did:plc:alice''])"
  using verify_fresh_hit [where d = "''did:plc:alice''" and env = "example_cached_env 1800000"
      and raw = "''cached''"
      and entry = "\<lparr> active = False, reason = Some ''DID has been tombstoned'',
                     resolvedAt = 1771502400000 - 1800000 \<rparr>"]
    verify_fresh_hit [where d = "''did:plc:alice''" and env = "example_cached_env 3600000"
      and raw = "''cached''"
      and entry = "\<lparr> active = False, reason = Some ''DID has been tombstoned'',
                     resolvedAt = 1771502400000 - 3600000 \<rparr>"]
  by (simp add: example_cached_env_def example_verifier_env_def DID_DOC_CACHE_PREFIX_def prod_eq_iff)

section \<open>Timestamp clamp: policy\<close>

text \<open>
  C4, as amended. For all valid client times and all valid values of now (dates that are
  not Invalid Date), the clamp returns now when the client time is more than five minutes
  ahead of now, returns now minus one hour when the client time is more than one hour
  behind now, and returns the client time unchanged otherwise. The result is then a valid
  date that lies between now minus one hour and now plus five minutes, both ends
  included, and a client time exactly on either end is returned unmodified.
\<close>

theorem clampCreatedAt_policy:
  assumes "valid_date (Date c)" and "valid_date (Date n)"
  shows "clampCreatedAt (Date c) (Date n) =
           (if c > n + 300000 then Date n
            else if c < n - 3600000 then Date (n - 3600000)
            else Date c)
       \<and> valid_date (clampCreatedAt (Date c) (Date n))
       \<and> spec_in_range (clampCreatedAt (Date c) (Date n)) (Date n)
       \<and> (c = n + 300000 \<or> c = n - 3600000 \<longrightarrow> clampCreatedAt (Date c) (Date n) = Date c)"
  using assms by (auto simp: clamp_defs)

text \<open>
  One millisecond past each boundary, exactly on each boundary, and at the largest time
  value, where now plus five minutes is no date.
\<close>

theorem clampCreatedAt_policy_witness:
  "valid_date (Date 1000300001) \<and> valid_date (Date 1000000000)
   \<and> clampCreatedAt (Date 1000300001) (Date 1000000000) = Date 1000000000
   \<and> clampCreatedAt (Date 1000300000) (Date 1000000000) = Date 1000300000
   \<and> clampCreatedAt (Date 996399999) (Date 1000000000) = Date 996400000
   \<and> clampCreatedAt (Date 996400000) (Date 1000000000) = Date 996400000
   \<and> clampCreatedAt (Date 8640000000000000) (Date 8640000000000000) = Date 8640000000000000"
  using clampCreatedAt_policy [where c = 1000300001 and n = 1000000000]
        clampCreatedAt_policy [where c = 1000300000 and n = 1000000000]
        clampCreatedAt_policy [where c = 996399999 and n = 1000000000]
        clampCreatedAt_policy [where c = 996400000 and n = 1000000000]
        clampCreatedAt_policy [where c = 8640000000000000 and n = 8640000000000000]
  by (simp add: valid_date_def)

text \<open>
  C4 as stated fails for an Invalid Date: both comparisons are false, the client time is
  returned as it is, and it does not lie in the range.
\<close>

theorem clampCreatedAt_invalid_counterexample:
  "clampCreatedAt InvalidDate (Date 1771502400000) = InvalidDate
   \<and> \<not> spec_in_range (clampCreatedAt InvalidDate (Date 1771502400000)) (Date 1771502400000)"
  by (simp add: clamp_defs)

section \<open>Record validator: order of the checks\<close>

text \<open>
  C7, as amended. The checks of \<open>validateRecord\<close> run in the order collection, size,
  schema, and the first failure ends the validation. An unsupported collection fails
  without the document being looked at. For a supported collection, a document whose
  JSON serialization has more than 65536 UTF-16 code units (the \<open>length\<close> of the
  serialized string) fails with the size error, whatever the schema would say and
  without the schema being called. A document of at most 65536 code units goes to the
  schema of its collection, which is called once and decides the result.
\<close>

theorem validateRecord_size_check:
  "(\<not> isSupportedCollection collection \<longrightarrow>
      validateRecord env collection rec =
        (Inr (Failure (''Unsupported collection: '' @ collection)), []))
   \<and> (\<forall>s. isSupportedCollection collection \<and> stringify env rec = Inr (Some s) \<and> 65536 < length s \<longrightarrow>
         validateRecord env collection rec =
           (Inr (Failure ''Record exceeds maximum size of 65536 bytes''), []))
   \<and> (\<forall>s. isSupportedCollection collection \<and> stringify env rec = Inr (Some s) \<and> length s \<le> 65536 \<longrightarrow>
         snd (validateRecord env collection rec) = [SafeParse collection rec]
         \<and> fst (validateRecord env collection rec) =
             (case safe_parse env collection rec of
                Inl err \<Rightarrow> Inl err
              | Inr success \<Rightarrow>
                  Inr (if success then Success rec
                       else Failure (''Validation failed for '' @ collection))))"
  by (auto simp: validateRecord_def MAX_RECORD_SIZE_def io_simps string_of_nat_65536 io_return_def
      io_builtin_def prod_eq_iff split: sum.splits)

text \<open>A valid document of 65537 code units, and a document of an unsupported collection.\<close>

theorem validateRecord_size_check_witness:
  "validateRecord (example_env \<lparr> stringify := (\<lambda>_. Inr (Some ascii_serialized)) \<rparr>)
      ''forum.atgora.topic.post'' ''doc'' =
     (Inr (Failure ''Record exceeds maximum size of 65536 bytes''), [])
   \<and> validateRecord example_env ''app.bsky.feed.post'' ''doc'' =
     (Inr (Failure ''Unsupported collection: app.bsky.feed.post''), [])
   \<and> validateRecord example_env ''forum.atgora.topic.post'' ''doc'' =
     (Inr (Success ''doc''), [SafeParse ''forum.atgora.topic.post'' ''doc''])"
  using validateRecord_size_check [where collection = "''forum.atgora.topic.post''"
      and env = "example_env \<lparr> stringify := (\<lambda>_. Inr (Some ascii_serialized)) \<rparr>"
      and rec = "''doc''"]
    validateRecord_size_check [where collection = "''app.bsky.feed.post''" and env = example_env
      and rec = "''doc''"]
    validateRecord_size_check [where collection = "''forum.atgora.topic.post''" and env = example_env
      and rec = "''doc''"]
  by (simp add: isSupportedCollection_iff example_env_def ascii_serialized_def prod_eq_iff)

text \<open>
  C7 as stated fails: the document whose only field is a string of 30000 euro signs
  serializes to 90008 bytes, more than 64 KiB, but to 30008 code units; the size check
  lets it through and the schema is called.
\<close>

theorem validateRecord_byte_length_counterexample:
  "isSupportedCollection ''forum.atgora.topic.post''
   \<and> stringify (example_env \<lparr> stringify := (\<lambda>_. Inr (Some euro_serialized)) \<rparr>) ''doc''
       = Inr (Some euro_serialized)
   \<and> 64 * 1024 < spec_byte_length euro_serialized
   \<and> validateRecord (example_env \<lparr> stringify := (\<lambda>_. Inr (Some euro_serialized)) \<rparr>)
       ''forum.atgora.topic.post'' ''doc'' =
     (Inr (Success ''doc''), [SafeParse ''forum.atgora.topic.post'' ''doc''])"
  by (simp add: isSupportedCollection_iff validateRecord_def MAX_RECORD_SIZE_def example_env_def
      spec_byte_length_euro length_euro io_simps prod_eq_iff)

section \<open>Dispatcher: routing\<close>

text \<open>
  C8. For every delete event of the reply collection or of the reaction collection
  whose URI has no row in the local store, the dispatcher still calls the delete entry
  point of the matching indexer, with an empty \<open>rootUri\<close> (reply) or an empty
  \<open>subjectUri\<close> (reaction), after the lookup and a debug line, and \<open>handle\<close> returns
  normally.
\<close>

theorem handle_delete_missing_row:
  assumes del: "ev_action event = Delete"
    and u: "u = ''at://'' @ ev_did event @ ''/'' @ ev_collection event @ ''/'' @ ev_rkey event"
  shows "(ev_collection event = ''forum.atgora.topic.reply'' \<and> select_replies env u = Inr [] \<longrightarrow>
            fst (handle env event) = Inr ()
            \<and> (\<exists>ws. snd (handle env event) =
                  [SelectReplies u,
                   Log (LogEntry LDebug [(''uri'', LStr u)]
                          ''Reply not found in DB for delete, count decrement will be skipped''),
                   IndexerCall (HandleDelete Reply
                     \<lparr> uri = u, rkey = ev_rkey event, did = ev_did event,
                       compensating = RootUri [] \<rparr>)] @ ws))
       \<and> (ev_collection event = ''forum.atgora.interaction.reaction'' \<and> select_reactions env u = Inr [] \<longrightarrow>
            fst (handle env event) = Inr ()
            \<and> (\<exists>ws. snd (handle env event) =
                  [SelectReactions u,
                   Log (LogEntry LDebug [(''uri'', LStr u)]
                          ''Reaction not found in DB for delete, count decrement will be skipped''),
                   IndexerCall (HandleDelete Reaction
                     \<lparr> uri = u, rkey = ev_rkey event, did = ev_did event,
                       compensating = SubjectUri [] \<rparr>)] @ ws))"
  using snd_handle_prefix [of env event]
    handle_try_delete_reply [OF del _ u, of env]
    handle_try_delete_reaction [OF del _ u, of env]
  by (auto simp: fst_handle)

text \<open>The delete of a reply and of a reaction that the store does not hold.\<close>

theorem handle_delete_missing_row_witness:
  "handle example_env (example_event ''forum.atgora.topic.reply'' Delete) =
     (Inr (),
      [SelectReplies ''at://did:plc:alice/forum.atgora.topic.reply/3kabc'',
       Log (LogEntry LDebug [(''uri'', LStr ''at://did:plc:alice/forum.atgora.topic.reply/3kabc'')]
              ''Reply not found in DB for delete, count decrement will be skipped''),
       IndexerCall (HandleDelete Reply
         \<lparr> uri = ''at://did:plc:alice/forum.atgora.topic.reply/3kabc'', rkey = ''3kabc'',
           did = ''did:plc:alice'', compensating = RootUri [] \<rparr>)])
   \<and> handle example_env (example_event ''forum.atgora.interaction.reaction'' Delete) =
     (Inr (),
      [SelectReactions ''at://did:plc:alice/forum.atgora.interaction.reaction/3kabc'',
       Log (LogEntry LDebug [(''uri'', LStr ''at://did:plc:alice/forum.atgora.interaction.reaction/3kabc'')]
              ''Reaction not found in DB for delete, count decrement will be skipped''),
       IndexerCall (HandleDelete Reaction
         \<lparr> uri = ''at://did:plc:alice/forum.atgora.interaction.reaction/3kabc'', rkey = ''3kabc'',
           did = ''did:plc:alice'', compensating = SubjectUri [] \<rparr>)])"
  using handle_delete_missing_row [where event = "example_event ''forum.atgora.topic.reply'' Delete"
      and u = "''at://did:plc:alice/forum.atgora.topic.reply/3kabc''" and env = example_env]
    handle_delete_missing_row [where event = "example_event ''forum.atgora.interaction.reaction'' Delete"
      and u = "''at://did:plc:alice/forum.atgora.interaction.reaction/3kabc''" and env = example_env]
  by (simp add: handler_defs isSupportedCollection_iff io_simps prod_eq_iff)

text \<open>
  C9. For every create event that passes validation, when the identity upsert or the
  account-age resolution throws (the database or the account-age service fails), the
  trust check answers \<open>trusted\<close>, and the create entry point of the indexer of the
  event's collection is still called, with the trust status \<open>trusted\<close>; \<open>handle\<close>
  returns normally.
\<close>

theorem trust_check_fails_open:
  assumes create: "ev_action event = Create"
    and rec: "ev_record event = Some rec"
    and valid: "fst (validateRecord env (ev_collection event) rec) = Inr (Success rec)"
    and fails: "fst (upsert_try env (ev_did event)) = Inl err"
    and params: "params = \<lparr> uri = ''at://'' @ ev_did event @ ''/'' @ ev_collection event @ ''/'' @ ev_rkey event,
                     rkey = ev_rkey event, did = ev_did event,
                     cid = (case ev_cid event of Some c \<Rightarrow> c | None \<Rightarrow> []),
                     record_data = rec, live = ev_live event, trustStatus = Trusted \<rparr>"
  shows "fst (upsertUserWithTrustCheck env (ev_did event)) = Inr Trusted
       \<and> fst (handle env event) = Inr ()
       \<and> IndexerCall (HandleCreate
            (if ev_collection event = ''forum.atgora.topic.post'' then Topic
             else if ev_collection event = ''forum.atgora.topic.reply'' then Reply
             else Reaction) params) \<in> set (snd (handle env event))"
proof -
  have t: "fst (upsertUserWithTrustCheck env (ev_did event)) = Inr Trusted"
    using fails by (rule fst_upsert_fail_open)
  have sup: "isSupportedCollection (ev_collection event)"
    using valid by (rule validateRecord_success_supported)
  have tr: "snd (handle_try env event) =
           snd (validateRecord env (ev_collection event) rec) @
           snd (upsertUserWithTrustCheck env (ev_did event)) @
           snd (dispatchCreate env (COLLECTION_MAP (ev_collection event)) params)"
    using handle_try_valid [where event = event and env = env and rec = rec and t = Trusted
        and params = params, OF _ rec valid refl refl] create t params
    by simp
  have "IndexerCall (HandleCreate
            (if ev_collection event = ''forum.atgora.topic.post'' then Topic
             else if ev_collection event = ''forum.atgora.topic.reply'' then Reply
             else Reaction) params)
        \<in> set (snd (dispatchCreate env (COLLECTION_MAP (ev_collection event)) params))"
    using sup by (auto simp: isSupportedCollection_iff dispatchCreate_def COLLECTION_MAP_def)
  then have "IndexerCall (HandleCreate
            (if ev_collection event = ''forum.atgora.topic.post'' then Topic
             else if ev_collection event = ''forum.atgora.topic.reply'' then Reply
             else Reaction) params) \<in> set (snd (handle_try env event))"
    by (simp add: tr)
  then show ?thesis
    using snd_handle_prefix [of env event] t by (auto simp: fst_handle)
qed

text \<open>The creation of a reply while the lookup of the user fails in the database.\<close>

theorem trust_check_fails_open_witness:
  "fst (upsert_try (example_env \<lparr> select_users := (\<lambda>_. Inl (Error ''connection terminated'')) \<rparr>)
          ''did:plc:alice'') = Inl (Error ''connection terminated'')
   \<and> handle (example_env \<lparr> select_users := (\<lambda>_. Inl (Error ''connection terminated'')) \<rparr>)
        (example_event ''forum.atgora.topic.reply'' Create) =
     (Inr (),
      [SafeParse ''forum.atgora.topic.reply'' ''doc'',
       SelectUsers ''did:plc:alice'',
       Log (LogEntry LError
              [(''err'', LErr (Error ''connection terminated'')), (''did'', LStr ''did:plc:alice'')]
              ''Failed to upsert user with trust check''),
       IndexerCall (HandleCreate Reply
         \<lparr> uri = ''at://did:plc:alice/forum.atgora.topic.reply/3kabc'', rkey = ''3kabc'',
           did = ''did:plc:alice'', cid = ''bafy'', record_data = ''doc'', live = True,
           trustStatus = Trusted \<rparr>)])"
  using trust_check_fails_open [where event = "example_event ''forum.atgora.topic.reply'' Create"
      and rec = "''doc''"
      and env = "example_env \<lparr> select_users := (\<lambda>_. Inl (Error ''connection terminated'')) \<rparr>"
      and err = "Error ''connection terminated''"
      and params = "\<lparr> uri = ''at://did:plc:alice/forum.atgora.topic.reply/3kabc'', rkey = ''3kabc'',
         did = ''did:plc:alice'', cid = ''bafy'', record_data = ''doc'', live = True,
         trustStatus = Trusted \<rparr>"]
  by (simp add: handler_defs isSupportedCollection_iff io_simps prod_eq_iff)

text \<open>
  C10. For every update event that passes validation: when its collection is the
  reaction collection, the dispatcher calls no entry point of any indexer, and \<open>handle\<close>
  returns having done nothing but the validation; when its collection is the topic or
  the reply collection, the update entry point of that indexer is called right after
  the validation.
\<close>

theorem reaction_update_discarded:
  assumes update: "ev_action event = Update"
    and rec: "ev_record event = Some rec"
    and valid: "fst (validateRecord env (ev_collection event) rec) = Inr (Success rec)"
    and params: "params = \<lparr> uri = ''at://'' @ ev_did event @ ''/'' @ ev_collection event @ ''/'' @ ev_rkey event,
                     rkey = ev_rkey event, did = ev_did event,
                     cid = (case ev_cid event of Some c \<Rightarrow> c | None \<Rightarrow> []),
                     record_data = rec, live = ev_live event, trustStatus = Trusted \<rparr>"
  shows "(ev_collection event = ''forum.atgora.interaction.reaction'' \<longrightarrow>
            handle env event = (Inr (), snd (validateRecord env (ev_collection event) rec))
            \<and> (\<forall>c. IndexerCall c \<notin> set (snd (handle env event))))
       \<and> (ev_collection event = ''forum.atgora.topic.post'' \<longrightarrow>
            (\<exists>ws. snd (handle env event) =
               snd (validateRecord env (ev_collection event) rec) @
               IndexerCall (HandleUpdate Topic params) # ws))
       \<and> (ev_collection event = ''forum.atgora.topic.reply'' \<longrightarrow>
            (\<exists>ws. snd (handle env event) =
               snd (validateRecord env (ev_collection event) rec) @
               IndexerCall (HandleUpdate Reply params) # ws))"
proof -
  have tr: "snd (handle_try env event) =
           snd (validateRecord env (ev_collection event) rec) @
           snd (dispatchUpdate env (COLLECTION_MAP (ev_collection event)) params)"
    using handle_try_valid [where event = event and env = env and rec = rec and t = Trusted
        and params = params, OF _ rec valid refl refl] update params
    by simp
  have ok: "fst (handle_try env event) =
           fst (dispatchUpdate env (COLLECTION_MAP (ev_collection event)) params)"
    using update rec valid params validateRecord_success_supported [OF valid]
    by (simp add: handle_try_def Let_def io_simps)
  have reaction: "handle env event = (Inr (), snd (validateRecord env (ev_collection event) rec))"
    if "ev_collection event = ''forum.atgora.interaction.reaction''"
    using that tr ok
    by (simp add: handle_def prod_eq_iff io_simps dispatchUpdate_def COLLECTION_MAP_def)
  have none: "IndexerCall c \<notin> set (snd (validateRecord env (ev_collection event) rec))" for c
    using snd_validateRecord_cases [of env "ev_collection event" rec] by auto
  have topic: "\<exists>ws. snd (handle env event) =
               snd (validateRecord env (ev_collection event) rec) @
               IndexerCall (HandleUpdate Topic params) # ws"
    if "ev_collection event = ''forum.atgora.topic.post''"
    using that tr snd_handle_prefix [of env event]
    by (auto simp: dispatchUpdate_def COLLECTION_MAP_def)
  have reply: "\<exists>ws. snd (handle env event) =
               snd (validateRecord env (ev_collection event) rec) @
               IndexerCall (HandleUpdate Reply params) # ws"
    if "ev_collection event = ''forum.atgora.topic.reply''"
    using that tr snd_handle_prefix [of env event]
    by (auto simp: dispatchUpdate_def COLLECTION_MAP_def)
  show ?thesis
    using reaction none topic reply by auto
qed

text \<open>The update of a reaction and the update of a reply.\<close>

theorem reaction_update_discarded_witness:
  "handle example_env (example_event ''forum.atgora.interaction.reaction'' Update) =
     (Inr (), [SafeParse ''forum.atgora.interaction.reaction'' ''doc''])
   \<and> handle example_env (example_event ''forum.atgora.topic.reply'' Update) =
     (Inr (),
      [SafeParse ''forum.atgora.topic.reply'' ''doc'',
       IndexerCall (HandleUpdate Reply
         \<lparr> uri = ''at://did:plc:alice/forum.atgora.topic.reply/3kabc'', rkey = ''3kabc'',
           did = ''did:plc:alice'', cid = ''bafy'', record_data = ''doc'', live = True,
           trustStatus = Trusted \<rparr>)])"
  using reaction_update_discarded [where event = "example_event ''forum.atgora.interaction.reaction'' Update"
      and rec = "''doc''" and env = example_env
      and params = "\<lparr> uri = ''at://did:plc:alice/forum.atgora.interaction.reaction/3kabc'', rkey = ''3kabc'',
         did = ''did:plc:alice'', cid = ''bafy'', record_data = ''doc'', live = True,
         trustStatus = Trusted \<rparr>"]
  by (simp add: handler_defs isSupportedCollection_iff io_simps prod_eq_iff)

end
